theory Spec2Isabelle
  imports Main
begin

section \<open>The resilient API client (src/main/services/hydra-api.ts)\<close>

subsection \<open>Thrown values\<close>

text \<open>
  The values the client throws or catches. \<open>AxiosError code status message\<close> is an
  \<^verbatim>\<open>AxiosError\<close>: \<open>code\<close> is \<^verbatim>\<open>error.code\<close>, \<open>status\<close> is
  \<^verbatim>\<open>error.response?.status\<close> (\<open>None\<close> when no response was received).
  \<open>Error code message\<close> is any other thrown error, with its optional \<^verbatim>\<open>code\<close>
  property. \<open>UserNotLoggedInError\<close> and \<open>SubscriptionRequiredError\<close> are the two
  classes imported from \<^verbatim>\<open>@shared\<close>; \<open>TypeError\<close> is what the runtime throws
  when a property of \<^verbatim>\<open>undefined\<close> is read, \<open>SyntaxError\<close> what \<^verbatim>\<open>JSON.parse\<close> throws.
\<close>

datatype js_error =
    UserNotLoggedInError
  | SubscriptionRequiredError
  | AxiosError "string option" "nat option" string
  | Error "string option" string
  | NetworkError string js_error
  | BackendUnavailableError string
  | TypeError string
  | SyntaxError string

type_synonym 'a result = "js_error + 'a"

fun errorCode :: "js_error \<Rightarrow> string option" where
  "errorCode (AxiosError c s m) = c"
| "errorCode (Error c m) = c"
| "errorCode e = None"

text \<open>
  \<^verbatim>\<open>error.message\<close>. The two classes of \<^verbatim>\<open>@shared\<close> are declared outside the
  sources; \<open>retryRequest\<close> rethrows them before any message is read, so the text given
  for them here is never used.
\<close>

fun errorMessage :: "js_error \<Rightarrow> string" where
  "errorMessage (AxiosError c s m) = m"
| "errorMessage (Error c m) = m"
| "errorMessage (NetworkError m e) = m"
| "errorMessage (BackendUnavailableError m) = m"
| "errorMessage (TypeError m) = m"
| "errorMessage (SyntaxError m) = m"
| "errorMessage UserNotLoggedInError = ''user not logged in''"
| "errorMessage SubscriptionRequiredError = ''subscription required''"

text \<open>\<^verbatim>\<open>error instanceof AxiosError && error.response?.status === 401\<close>\<close>

fun isUnauthorized :: "js_error \<Rightarrow> bool" where
  "isUnauthorized (AxiosError c s m) = (s = Some 401)"
| "isUnauthorized e = False"

text \<open>Decimal rendering of a number inside a template string.\<close>

definition digit :: "nat \<Rightarrow> char" where
  "digit d = ''0123456789'' ! d"

fun showNat :: "nat \<Rightarrow> string" where
  "showNat n =
     (if n < 10 then [digit n]
      else showNat (n div 10) @ [digit (n mod 10)])"

declare showNat.simps [simp del]

subsection \<open>The session and the world around the client\<close>

datatype Subscription = Subscription (expiresAt: "int option")

record HydraApiUserAuth =
  authToken :: string
  refreshToken :: string
  expirationTimestamp :: int
  subscription :: "Subscription option"

text \<open>The persisted \<^verbatim>\<open>Auth\<close> record stored under \<^verbatim>\<open>levelKeys.auth\<close>.\<close>

datatype Auth = Auth (accessToken: string) (storedRefreshToken: "string option")
  (tokenExpirationTimestamp: int)

text \<open>
  The state the client reads and writes: the static \<^verbatim>\<open>userAuth\<close>, the two database
  keys it touches (\<open>dbUser\<close> holds the stored user record as opaque text), whether
  \<^verbatim>\<open>WindowManager.mainWindow\<close> exists and the channels sent to it, the clock
  (\<^verbatim>\<open>Date.now()\<close>, in milliseconds), the arguments of every \<^verbatim>\<open>delay\<close> so far,
  the number of requests issued through the Axios instance so far, and the calls made
  to the other collaborators on sign-in.
\<close>

record world =
  userAuth :: HydraApiUserAuth
  dbAuth :: "Auth option"
  dbUser :: "string option"
  mainWindow :: bool
  sent :: "string list"
  now :: int
  slept :: "int list"
  calls :: nat
  collaborators :: "string list"

text \<open>
  What Axios rejects a request with, before the interceptors of the instance see it: an
  \<^verbatim>\<open>AxiosError\<close> with its \<^verbatim>\<open>code\<close>, the status of its \<^verbatim>\<open>response\<close> if one was
  received, whether its \<^verbatim>\<open>request\<close> property is set, and its message.
\<close>

datatype rejection = Rejection "string option" "nat option" bool string

text \<open>
  The body of a request as the interceptor finds it in \<^verbatim>\<open>config.data\<close>: none (the
  caller gave no \<^verbatim>\<open>data\<close>, or the operation takes none), JSON text (an object that
  Axios serialised, or a string that is JSON), or anything else, for which
  \<^verbatim>\<open>JSON.parse\<close> throws a \<^verbatim>\<open>SyntaxError\<close> with the message given.
\<close>

datatype body = NoBody | JsonBody | OtherBody string

text \<open>
  The backend behind \<^verbatim>\<open>this.instance\<close>: the \<open>k\<close>-th request (counted from zero over
  the life of the instance) ends as \<open>respond k\<close>, a rejection or the
  \<^verbatim>\<open>response.data\<close> of a success; when that request is the refresh call, it ends as
  \<open>refresh k\<close>, with the pair \<^verbatim>\<open>{accessToken, expiresIn}\<close> as data. The url and
  the parameters of a request do not enter the model.
\<close>

record 'a server =
  respond :: "nat \<Rightarrow> rejection + 'a"
  refresh :: "nat \<Rightarrow> rejection + (string \<times> int)"

record HydraApiOptions =
  needsAuth :: "bool option"
  needsSubscription :: "bool option"
  ifModifiedSince :: "int option"
  retryAttempts :: "int option"
  retryDelay :: "int option"

definition DEFAULT_RETRY_ATTEMPTS :: int where
  "DEFAULT_RETRY_ATTEMPTS = 3"

definition DEFAULT_RETRY_DELAY :: int where
  "DEFAULT_RETRY_DELAY = 1000"

definition EXPIRATION_OFFSET_IN_MS :: int where
  "EXPIRATION_OFFSET_IN_MS = 1000 * 60 * 5"

definition secondsToMilliseconds :: "int \<Rightarrow> int" where
  "secondsToMilliseconds seconds = seconds * 1000"

definition emptyAuth :: HydraApiUserAuth where
  "emptyAuth = \<lparr>authToken = [], refreshToken = [], expirationTimestamp = 0,
     subscription = None\<rparr>"

definition isLoggedIn :: "world \<Rightarrow> bool" where
  "isLoggedIn w = (authToken (userAuth w) \<noteq> [])"

text \<open>\<^verbatim>\<open>new Date(this.userAuth.subscription?.expiresAt ?? 0) > new Date()\<close>\<close>

definition hasActiveSubscription :: "world \<Rightarrow> bool" where
  "hasActiveSubscription w =
     ((case subscription (userAuth w) of
         None \<Rightarrow> 0
       | Some s \<Rightarrow> (case expiresAt s of None \<Rightarrow> 0 | Some t \<Rightarrow> t)) > now w)"

subsection \<open>The retry engine\<close>

definition isRetryableError :: "js_error \<Rightarrow> bool" where
  "isRetryableError error =
     (case error of
        AxiosError c s m \<Rightarrow> (case s of None \<Rightarrow> True | Some st \<Rightarrow> st \<ge> 500 \<and> st < 600)
      | _ \<Rightarrow> errorCode error = Some ''ECONNREFUSED'' \<or> errorCode error = Some ''ENOTFOUND''
             \<or> errorCode error = Some ''ETIMEDOUT'')"

text \<open>\<^verbatim>\<open>setTimeout\<close> for \<open>ms\<close> milliseconds: the wait is recorded and the clock moves on.\<close>

definition delay :: "int \<Rightarrow> world \<Rightarrow> world" where
  "delay ms w = w\<lparr>slept := slept w @ [ms], now := now w + max 0 ms\<rparr>"

text \<open>
  How the \<^verbatim>\<open>for\<close> loop of \<^verbatim>\<open>retryRequest\<close> is left: by the \<^verbatim>\<open>return\<close> of a
  successful attempt, by one of the two \<^verbatim>\<open>throw error\<close> statements inside the
  \<^verbatim>\<open>catch\<close>, or by falling out of it (the \<^verbatim>\<open>break\<close>, or the loop condition
  failing) with \<^verbatim>\<open>lastError\<close> as it then stands (\<open>None\<close> is \<^verbatim>\<open>undefined\<close>).
\<close>

datatype 'a loop_exit = Returned 'a | Thrown js_error | Fell "js_error option"

function retryLoop ::
  "(world \<Rightarrow> 'a result \<times> world) \<Rightarrow> int \<Rightarrow> int \<Rightarrow> int \<Rightarrow> js_error option \<Rightarrow> world
     \<Rightarrow> 'a loop_exit \<times> world" where
  "retryLoop requestFn attempts baseDelay attempt lastError w =
     (if attempt \<le> attempts then
        (case requestFn w of
           (Inr v, w') \<Rightarrow> (Returned v, w')
         | (Inl error, w') \<Rightarrow>
             if error = UserNotLoggedInError \<or> error = SubscriptionRequiredError
             then (Thrown error, w')
             else if isUnauthorized error then (Thrown error, w')
             else if isRetryableError error \<and> attempt < attempts
             then retryLoop requestFn attempts baseDelay (attempt + 1) (Some error)
                    (delay (baseDelay * 2 ^ nat attempt) w')
             else (Fell (Some error), w'))
      else (Fell lastError, w))"
  by pat_completeness auto
termination
  by (relation "measure (\<lambda>(f, n, d, a, e, w). nat (n + 1 - a))") auto

declare retryLoop.simps [simp del]

text \<open>The statements after the loop: the last error is categorised and thrown.\<close>

definition categorise :: "js_error option \<Rightarrow> js_error" where
  "categorise lastError =
     (case lastError of
        None \<Rightarrow> TypeError ''Cannot read properties of undefined (reading message)''
      | Some e \<Rightarrow>
          (case e of
             AxiosError c s m \<Rightarrow>
               if c = Some ''ECONNREFUSED'' \<or> c = Some ''ENOTFOUND''
               then BackendUnavailableError (''Backend service unavailable: '' @ m)
               else (case s of
                       Some st \<Rightarrow>
                         if st \<ge> 500 then NetworkError (''Server error: '' @ showNat st) e
                         else NetworkError (''Request failed: '' @ m) e
                     | None \<Rightarrow> NetworkError (''Request failed: '' @ m) e)
           | _ \<Rightarrow> NetworkError (''Request failed: '' @ errorMessage e) e))"

definition retryRequest ::
  "(world \<Rightarrow> 'a result \<times> world) \<Rightarrow> int option \<Rightarrow> int option \<Rightarrow> world \<Rightarrow> 'a result \<times> world"
  where
  "retryRequest requestFn attemptsOpt delayOpt w =
     (let attempts = (case attemptsOpt of None \<Rightarrow> DEFAULT_RETRY_ATTEMPTS | Some n \<Rightarrow> n);
          baseDelay = (case delayOpt of None \<Rightarrow> DEFAULT_RETRY_DELAY | Some d \<Rightarrow> d)
      in case retryLoop requestFn attempts baseDelay 0 None w of
           (Returned v, w') \<Rightarrow> (Inr v, w')
         | (Thrown e, w') \<Rightarrow> (Inl e, w')
         | (Fell lastError, w') \<Rightarrow> (Inl (categorise lastError), w'))"


subsection \<open>Unauthorized handling, token refresh, option validation\<close>

definition sendSignOutEvent :: "world \<Rightarrow> world" where
  "sendSignOutEvent w = (if mainWindow w then w\<lparr>sent := sent w @ [''on-signout'']\<rparr> else w)"

text \<open>
  \<^verbatim>\<open>handleUnauthorizedError\<close> never returns normally: the pair is the error it throws
  and the world it leaves. \<^verbatim>\<open>db.batch\<close> deletes the keys \<^verbatim>\<open>auth\<close> and \<^verbatim>\<open>user\<close>.
\<close>

definition handleUnauthorizedError :: "js_error \<Rightarrow> world \<Rightarrow> js_error \<times> world" where
  "handleUnauthorizedError err w =
     (if isUnauthorized err
      then (err, sendSignOutEvent (w\<lparr>userAuth := emptyAuth, dbAuth := None, dbUser := None\<rparr>))
      else (err, w))"

text \<open>
  The response interceptor that \<^verbatim>\<open>setupApi\<close> installs on the instance, on a rejection.
  It first runs \<^verbatim>\<open>JSON.parse(config.data ?? null)\<close> for its log, which throws for a
  body that is not JSON text: then the request is rejected with that \<^verbatim>\<open>SyntaxError\<close>.
  Otherwise an error with a response is passed on as it is; an error without a response
  whose request was made is replaced by a plain \<^verbatim>\<open>Error\<close>
  \<^verbatim>\<open>Request failed with ${code} ${message}\<close>, which has no \<^verbatim>\<open>code\<close> property; any other
  error is passed on as it is. Successful responses pass unchanged.
\<close>

definition ADD_LOG_INTERCEPTOR :: bool where
  "ADD_LOG_INTERCEPTOR = True"

fun parseFailure :: "body \<Rightarrow> string option" where
  "parseFailure NoBody = None"
| "parseFailure JsonBody = None"
| "parseFailure (OtherBody msg) = Some msg"

fun passedOn :: "rejection \<Rightarrow> js_error" where
  "passedOn (Rejection c (Some st) rq m) = AxiosError c (Some st) m"
| "passedOn (Rejection c None True m) =
     Error None (''Request failed with '' @ (case c of None \<Rightarrow> ''undefined'' | Some x \<Rightarrow> x)
                   @ '' '' @ m)"
| "passedOn (Rejection c None False m) = AxiosError c None m"

definition responseErrorInterceptor :: "body \<Rightarrow> rejection \<Rightarrow> js_error" where
  "responseErrorInterceptor data r =
     (case parseFailure data of
        Some msg \<Rightarrow> SyntaxError msg
      | None \<Rightarrow> passedOn r)"

fun uninterceptedError :: "rejection \<Rightarrow> js_error" where
  "uninterceptedError (Rejection c s rq m) = AxiosError c s m"

definition settle :: "body \<Rightarrow> rejection + 'b \<Rightarrow> 'b result" where
  "settle data x =
     (case x of
        Inl r \<Rightarrow> Inl (if ADD_LOG_INTERCEPTOR then responseErrorInterceptor data r
                       else uninterceptedError r)
      | Inr v \<Rightarrow> Inr v)"

text \<open>
  What the promise of the \<open>k\<close>-th request through the instance settles with, for a
  request with body \<open>data\<close>. The refresh call posts an object.
\<close>

definition outcome :: "'a server \<Rightarrow> body \<Rightarrow> nat \<Rightarrow> 'a result" where
  "outcome srv data k = settle data (respond srv k)"

definition refreshOutcome :: "'a server \<Rightarrow> nat \<Rightarrow> (string \<times> int) result" where
  "refreshOutcome srv k = settle JsonBody (refresh srv k)"

text \<open>One request through the Axios instance.\<close>

definition instanceRequest :: "'a server \<Rightarrow> body \<Rightarrow> world \<Rightarrow> 'a result \<times> world" where
  "instanceRequest srv data w = (outcome srv data (calls w), w\<lparr>calls := Suc (calls w)\<rparr>)"

text \<open>
  The promise chain every operation builds:
  \<^verbatim>\<open>this.instance.<method>(...).then((response) => response.data).catch(this.handleUnauthorizedError)\<close>
\<close>

definition request :: "'a server \<Rightarrow> body \<Rightarrow> world \<Rightarrow> 'a result \<times> world" where
  "request srv data w =
     (case instanceRequest srv data w of
        (Inr v, w') \<Rightarrow> (Inr v, w')
      | (Inl err, w') \<Rightarrow> (case handleUnauthorizedError err w' of (e, w'') \<Rightarrow> (Inl e, w'')))"

text \<open>
  \<^verbatim>\<open>HydraApi.refreshToken\<close> (the name \<open>refreshToken\<close> is the session's field). A
  \<^verbatim>\<open>db.get\<close> of a missing key yields \<^verbatim>\<open>undefined\<close>, whose spread has no fields.
\<close>

definition HydraApi_refreshToken :: "'a server \<Rightarrow> world \<Rightarrow> (string \<times> int) result \<times> world" where
  "HydraApi_refreshToken srv w =
     (let w1 = w\<lparr>calls := Suc (calls w)\<rparr> in
      case refreshOutcome srv (calls w) of
        Inl err \<Rightarrow> (Inl err, w1)
      | Inr (newToken, expiresIn) \<Rightarrow>
          (let ts = now w1 + secondsToMilliseconds expiresIn - EXPIRATION_OFFSET_IN_MS;
               w2 = w1\<lparr>userAuth := (userAuth w1)\<lparr>authToken := newToken,
                      expirationTimestamp := ts\<rparr>\<rparr>;
               w3 = w2\<lparr>dbAuth := Some (case dbAuth w2 of
                      None \<Rightarrow> Auth newToken None ts
                    | Some a \<Rightarrow> Auth newToken (storedRefreshToken a) ts)\<rparr>
           in (Inr (newToken, expiresIn), w3)))"

definition revalidateAccessTokenIfExpired :: "'a server \<Rightarrow> world \<Rightarrow> unit result \<times> world" where
  "revalidateAccessTokenIfExpired srv w =
     (if expirationTimestamp (userAuth w) < now w then
        (case HydraApi_refreshToken srv w of
           (Inr r, w') \<Rightarrow> (Inr (), w')
         | (Inl err, w') \<Rightarrow> (case handleUnauthorizedError err w' of (e, w'') \<Rightarrow> (Inl e, w'')))
      else (Inr (), w))"

definition validateOptions :: "'a server \<Rightarrow> HydraApiOptions \<Rightarrow> world \<Rightarrow> unit result \<times> world" where
  "validateOptions srv options w =
     (let auth = (needsAuth options = None \<or> needsAuth options = Some True);
          sub = (needsSubscription options = Some True)
      in case (if auth
               then (if \<not> isLoggedIn w then (Inl UserNotLoggedInError, w)
                     else revalidateAccessTokenIfExpired srv w)
               else (Inr (), w)) of
           (Inl e, w') \<Rightarrow> (Inl e, w')
         | (Inr u, w') \<Rightarrow>
             if sub \<and> \<not> hasActiveSubscription w' then (Inl SubscriptionRequiredError, w')
             else (Inr (), w'))"

subsection \<open>The five operations\<close>

text \<open>
  \<open>get\<close> and \<open>delete\<close> send no body; \<open>post\<close>, \<open>put\<close> and \<open>patch\<close> send the
  \<^verbatim>\<open>data\<close> of the caller.
\<close>

definition get :: "'a server \<Rightarrow> HydraApiOptions \<Rightarrow> world \<Rightarrow> 'a result \<times> world" where
  "get srv options w =
     (case validateOptions srv options w of
        (Inl e, w') \<Rightarrow> (Inl e, w')
      | (Inr u, w') \<Rightarrow>
          retryRequest (request srv NoBody) (retryAttempts options) (retryDelay options) w')"

definition post :: "'a server \<Rightarrow> body \<Rightarrow> HydraApiOptions \<Rightarrow> world \<Rightarrow> 'a result \<times> world" where
  "post srv data options w =
     (case validateOptions srv options w of
        (Inl e, w') \<Rightarrow> (Inl e, w')
      | (Inr u, w') \<Rightarrow>
          retryRequest (request srv data) (retryAttempts options) (retryDelay options) w')"

definition put :: "'a server \<Rightarrow> body \<Rightarrow> HydraApiOptions \<Rightarrow> world \<Rightarrow> 'a result \<times> world" where
  "put srv data options w =
     (case validateOptions srv options w of
        (Inl e, w') \<Rightarrow> (Inl e, w')
      | (Inr u, w') \<Rightarrow> request srv data w')"

definition patch :: "'a server \<Rightarrow> body \<Rightarrow> HydraApiOptions \<Rightarrow> world \<Rightarrow> 'a result \<times> world" where
  "patch srv data options w =
     (case validateOptions srv options w of
        (Inl e, w') \<Rightarrow> (Inl e, w')
      | (Inr u, w') \<Rightarrow> request srv data w')"

definition delete :: "'a server \<Rightarrow> HydraApiOptions \<Rightarrow> world \<Rightarrow> 'a result \<times> world" where
  "delete srv options w =
     (case validateOptions srv options w of
        (Inl e, w') \<Rightarrow> (Inl e, w')
      | (Inr u, w') \<Rightarrow> request srv NoBody w')"

subsection \<open>Sign-in and sign-out\<close>

text \<open>
  \<^verbatim>\<open>handleExternalAuth\<close> from the decoded payload on: the three fields it destructures
  from the JSON. \<^verbatim>\<open>getUserData\<close> is outside the sources; the user details it
  resolves to are a parameter.
\<close>

datatype payload = Payload (payloadAccessToken: string) (payloadExpiresIn: int)
  (payloadRefreshToken: string)

datatype UserDetails = UserDetails (userSubscription: "Subscription option")

definition handleExternalAuth :: "payload \<Rightarrow> UserDetails option \<Rightarrow> world \<Rightarrow> world" where
  "handleExternalAuth p userDetails w =
     (let ts = now w + secondsToMilliseconds (payloadExpiresIn p) - EXPIRATION_OFFSET_IN_MS;
          w1 = w\<lparr>userAuth := \<lparr>authToken = payloadAccessToken p,
                 refreshToken = payloadRefreshToken p, expirationTimestamp = ts,
                 subscription = None\<rparr>\<rparr>;
          w2 = w1\<lparr>dbAuth := Some (Auth (payloadAccessToken p) (Some (payloadRefreshToken p)) ts)\<rparr>;
          w3 = (case userDetails of
                  None \<Rightarrow> w2
                | Some d \<Rightarrow>
                    (case userSubscription d of
                       None \<Rightarrow> w2
                     | Some s \<Rightarrow> w2\<lparr>userAuth := (userAuth w2)\<lparr>subscription := Some s\<rparr>\<rparr>))
      in if mainWindow w3
         then w3\<lparr>sent := sent w3 @ [''on-signin''],
                collaborators := collaborators w3 @ [''clearGamesRemoteIds'',
                  ''uploadGamesBatch'', ''WSClient.close'', ''WSClient.connect'']\<rparr>
         else w3)"

text \<open>
  \<^verbatim>\<open>handleSignOut\<close>: the logout request, which posts an empty object, is started and
  its rejection discarded; here it runs to its end before the function returns.
\<close>

definition handleSignOut :: "'a server \<Rightarrow> world \<Rightarrow> world" where
  "handleSignOut srv w =
     snd (post srv JsonBody \<lparr>needsAuth = Some False, needsSubscription = None, ifModifiedSince = None,
                    retryAttempts = None, retryDelay = None\<rparr>
            (w\<lparr>userAuth := emptyAuth\<rparr>))"

text \<open>The all-or-nothing condition on the three session fields.\<close>

definition jointlyEmpty :: "HydraApiUserAuth \<Rightarrow> bool" where
  "jointlyEmpty a = (authToken a = [] \<and> refreshToken a = [] \<and> expirationTimestamp a = 0)"

definition jointlyPopulated :: "HydraApiUserAuth \<Rightarrow> bool" where
  "jointlyPopulated a = (authToken a \<noteq> [] \<and> refreshToken a \<noteq> [] \<and> expirationTimestamp a \<noteq> 0)"

section \<open>Startup and shutdown (src/main/services/critical-error-handler.ts)\<close>

subsection \<open>Errors, collaborators, effects\<close>

datatype CriticalStartupError =
  CriticalStartupError (message: string) (component: string) (recoverable: bool)

datatype thrown =
    Critical CriticalStartupError
  | DatabaseCorruptionError string
  | SystemPathError string string

fun thrownName :: "thrown \<Rightarrow> string" where
  "thrownName (Critical e) = ''CriticalStartupError''"
| "thrownName (DatabaseCorruptionError m) = ''DatabaseCorruptionError''"
| "thrownName (SystemPathError m p) = ''SystemPathError''"

fun thrownMessage :: "thrown \<Rightarrow> string" where
  "thrownMessage (Critical e) = message e"
| "thrownMessage (DatabaseCorruptionError m) = m"
| "thrownMessage (SystemPathError m p) = m"

text \<open>\<^verbatim>\<open>error instanceof CriticalStartupError ? error.recoverable : false\<close>\<close>

fun isRecoverable :: "thrown \<Rightarrow> bool" where
  "isRecoverable (Critical e) = recoverable e"
| "isRecoverable e = False"

datatype call =
    AcquireLock | ReleaseLock | DbGet | DbPut | CheckPaths | Init string
  | StopAllDownloads | Disconnect | Kill | ExecAsync string

record report =
  reportTimestamp :: string
  reportError :: "string \<times> string \<times> string"
  reportStartupErrors :: "(string \<times> string \<times> bool) list"
  reportSystemInfo :: "string \<times> string \<times> string \<times> string"

text \<open>
  What the handler does to the outside, in order: a call to a collaborator with whether
  it resolved, a wait, a message box with its buttons and detail, the issue report handed
  to the logger, \<^verbatim>\<open>app.quit()\<close> and \<^verbatim>\<open>app.exit(code)\<close>.
\<close>

datatype effect =
    Called call bool
  | Slept int
  | MessageBox "string list" string
  | IssueReport report
  | AppQuit
  | AppExit int

text \<open>
  The collaborators, none of which is in the sources: each call resolves or rejects
  depending on the moment it is made, the number of effects before it. What a
  collaborator throws is taken to be an \<^verbatim>\<open>Error\<close> object: \<open>init name t\<close> is the
  message of the error the service's \<^verbatim>\<open>init\<close> throws, if it throws. \<open>stack e\<close> is the
  stack trace the runtime recorded in \<open>e\<close>.
\<close>

record env =
  acquireLock :: "nat \<Rightarrow> bool"
  releaseLock :: "nat \<Rightarrow> bool"
  dbGet :: "nat \<Rightarrow> bool"
  dbPut :: "nat \<Rightarrow> bool"
  checkIfPathsAreAvailable :: "nat \<Rightarrow> bool"
  init :: "string \<Rightarrow> nat \<Rightarrow> string option"
  stopAllDownloads :: "nat \<Rightarrow> bool"
  disconnect :: "nat \<Rightarrow> bool"
  kill :: "nat \<Rightarrow> bool"
  execAsync :: "string \<Rightarrow> nat \<Rightarrow> bool"
  platform :: string
  arch :: string
  version :: string
  electronVersion :: string
  toISOString :: "nat \<Rightarrow> string"
  stack :: "thrown \<Rightarrow> string"

record app =
  startupErrors :: "CriticalStartupError list"
  trace :: "effect list"

definition MAX_RETRY_ATTEMPTS :: nat where
  "MAX_RETRY_ATTEMPTS = 3"

definition RETRY_DELAY :: int where
  "RETRY_DELAY = 2000"

definition called :: "call \<Rightarrow> bool \<Rightarrow> app \<Rightarrow> app" where
  "called c ok w = w\<lparr>trace := trace w @ [Called c ok]\<rparr>"

text \<open>The handler's own \<^verbatim>\<open>delay\<close>.\<close>

definition startupDelay :: "int \<Rightarrow> app \<Rightarrow> app" where
  "startupDelay ms w = w\<lparr>trace := trace w @ [Slept ms]\<rparr>"

fun delaysOf :: "effect list \<Rightarrow> int list" where
  "delaysOf [] = []"
| "delaysOf (Slept ms # es) = ms # delaysOf es"
| "delaysOf (e # es) = delaysOf es"

fun attemptsOf :: "effect list \<Rightarrow> nat" where
  "attemptsOf [] = 0"
| "attemptsOf (Called AcquireLock ok # es) = Suc (attemptsOf es)"
| "attemptsOf (e # es) = attemptsOf es"

subsection \<open>The startup steps\<close>

text \<open>
  A step returns \<open>Inr ()\<close> when it returns normally and \<open>Inl e\<close> when it throws \<open>e\<close>.
  The loop of \<^verbatim>\<open>handleLockAcquisition\<close>, from attempt number \<open>attempt\<close> on:
\<close>

function lockLoop :: "env \<Rightarrow> nat \<Rightarrow> app \<Rightarrow> (thrown + unit) \<times> app" where
  "lockLoop env attempt w =
     (if attempt \<le> MAX_RETRY_ATTEMPTS then
        (let ok = acquireLock env (length (trace w));
             w1 = called AcquireLock ok w
         in if ok then (Inr (), w1)
            else if attempt = MAX_RETRY_ATTEMPTS
            then (Inl (Critical (CriticalStartupError
                    ''Failed to acquire application lock after multiple attempts. Another instance may be running.''
                    ''Lock'' False)), w1)
            else lockLoop env (attempt + 1) (startupDelay (RETRY_DELAY * int attempt) w1))
      else (Inr (), w))"
  by pat_completeness auto
termination
  by (relation "measure (\<lambda>(env, a, w). MAX_RETRY_ATTEMPTS + 1 - a)") auto

declare lockLoop.simps [simp del]

definition handleLockAcquisition :: "env \<Rightarrow> app \<Rightarrow> (thrown + unit) \<times> app" where
  "handleLockAcquisition env w = lockLoop env 1 w"

text \<open>\<^verbatim>\<open>createDatabaseBackup\<close> only logs.\<close>

definition createDatabaseBackup :: "app \<Rightarrow> app" where
  "createDatabaseBackup w = w"

text \<open>
  \<^verbatim>\<open>resetCriticalDatabaseEntries\<close> rethrows what \<^verbatim>\<open>db.put\<close> threw; the error is
  only logged by its caller, so the result is whether the function returned normally.
\<close>

definition resetCriticalDatabaseEntries :: "env \<Rightarrow> app \<Rightarrow> bool \<times> app" where
  "resetCriticalDatabaseEntries env w =
     (let ok = dbPut env (length (trace w)) in (ok, called DbPut ok w))"

definition attemptDatabaseRecovery :: "env \<Rightarrow> app \<Rightarrow> bool \<times> app" where
  "attemptDatabaseRecovery env w =
     (case resetCriticalDatabaseEntries env (createDatabaseBackup w) of
        (True, w') \<Rightarrow> (True, w')
      | (False, w') \<Rightarrow> (False, w'))"

definition handleDatabaseInitialization :: "env \<Rightarrow> app \<Rightarrow> (thrown + unit) \<times> app" where
  "handleDatabaseInitialization env w =
     (let ok = dbGet env (length (trace w));
          w1 = called DbGet ok w
      in if ok then (Inr (), w1)
         else (case attemptDatabaseRecovery env w1 of
                 (recovered, w2) \<Rightarrow>
                   if \<not> recovered
                   then (Inl (DatabaseCorruptionError
                          ''Database is corrupted and cannot be recovered. Please reinstall the application.''),
                         w2)
                   else (Inr (), w2)))"

text \<open>The \<^verbatim>\<open>try\<close> block of \<^verbatim>\<open>attemptPathRecovery\<close> only logs.\<close>

definition attemptPathRecovery :: "app \<Rightarrow> bool \<times> app" where
  "attemptPathRecovery w = (True, w)"

definition handleSystemPathValidation :: "env \<Rightarrow> app \<Rightarrow> (thrown + unit) \<times> app" where
  "handleSystemPathValidation env w =
     (let ok = checkIfPathsAreAvailable env (length (trace w));
          w1 = called CheckPaths ok w
      in if ok then (Inr (), w1)
         else (case attemptPathRecovery w1 of
                 (recovered, w2) \<Rightarrow>
                   if \<not> recovered
                   then (Inl (SystemPathError
                          ''Critical system paths are inaccessible. Please check file permissions.''
                          ''system-paths''), w2)
                   else (Inr (), w2)))"

text \<open>The names of the service descriptors, in the declared order.\<close>

definition services :: "string list" where
  "services = [''PythonRPC'', ''HydraApi'', ''DownloadManager'', ''CommonRedistManager'',
     ''Ludusavi'']"

definition initService :: "env \<Rightarrow> string \<Rightarrow> app \<Rightarrow> app" where
  "initService env name w =
     (case init env name (length (trace w)) of
        None \<Rightarrow> called (Init name) True w
      | Some msg \<Rightarrow>
          (called (Init name) False w)\<lparr>startupErrors := startupErrors w @
             [CriticalStartupError (name @ '' failed to initialize: '' @ msg) name True]\<rparr>)"

fun serviceLoop :: "env \<Rightarrow> string list \<Rightarrow> app \<Rightarrow> app" where
  "serviceLoop env [] w = w"
| "serviceLoop env (name # rest) w = serviceLoop env rest (initService env name w)"

definition handleEssentialServices :: "env \<Rightarrow> app \<Rightarrow> app" where
  "handleEssentialServices env w = serviceLoop env services w"

text \<open>The \<^verbatim>\<open>try\<close> block of \<^verbatim>\<open>handleCriticalStartup\<close>.\<close>

definition startupSequence :: "env \<Rightarrow> app \<Rightarrow> (thrown + unit) \<times> app" where
  "startupSequence env w =
     (case handleLockAcquisition env w of
        (Inl e, w1) \<Rightarrow> (Inl e, w1)
      | (Inr u, w1) \<Rightarrow>
          (case handleDatabaseInitialization env w1 of
             (Inl e, w2) \<Rightarrow> (Inl e, w2)
           | (Inr u, w2) \<Rightarrow>
               (case handleSystemPathValidation env w2 of
                  (Inl e, w3) \<Rightarrow> (Inl e, w3)
                | (Inr u, w3) \<Rightarrow> (Inr (), handleEssentialServices env w3))))"

subsection \<open>Failure handling and the issue report\<close>

definition reportIssue :: "env \<Rightarrow> thrown \<Rightarrow> app \<Rightarrow> app" where
  "reportIssue env error w =
     w\<lparr>trace := trace w @ [IssueReport
        \<lparr>reportTimestamp = toISOString env (length (trace w)),
         reportError = (thrownName error, thrownMessage error, stack env error),
         reportStartupErrors =
           map (\<lambda>e. (component e, message e, recoverable e)) (startupErrors w),
         reportSystemInfo = (platform env, arch env, version env, electronVersion env)\<rparr>]\<rparr>"

definition buttons :: "bool \<Rightarrow> string list" where
  "buttons recov =
     (if recov then [''Retry'', ''Continue Anyway'', ''Exit''] else [''Exit'', ''Report Issue''])"

text \<open>
  The user's answers to the message boxes are the list \<open>responses\<close>, one index per box
  in the order the boxes are shown; a function that waits for an answer that never
  comes does not return, which is the value \<open>None\<close>.
\<close>

definition initializeWithLimitedFunctionality :: "nat list \<Rightarrow> app \<Rightarrow> app option" where
  "initializeWithLimitedFunctionality responses w =
     (case responses of
        [] \<Rightarrow> None
      | r # rs \<Rightarrow> Some (w\<lparr>trace := trace w @ [MessageBox [''Continue'']
          ''The application will continue with limited functionality. You may need to restart the application later.'']\<rparr>))"

function handleCriticalStartup :: "env \<Rightarrow> nat list \<Rightarrow> app \<Rightarrow> app option"
  and handleStartupFailure :: "env \<Rightarrow> thrown \<Rightarrow> nat list \<Rightarrow> app \<Rightarrow> app option" where
  "handleCriticalStartup env responses w =
     (case startupSequence env w of
        (Inr u, w') \<Rightarrow> Some w'
      | (Inl error, w') \<Rightarrow> handleStartupFailure env error responses w')"
| "handleStartupFailure env error [] w = None"
| "handleStartupFailure env error (response # responses) w =
     (let w1 = w\<lparr>trace := trace w @
                 [MessageBox (buttons (isRecoverable error)) (thrownMessage error)]\<rparr>
      in if response = 0 then
           (if isRecoverable error then handleCriticalStartup env responses w1
            else Some (w1\<lparr>trace := trace w1 @ [AppQuit]\<rparr>))
         else if response = 1 then
           (if isRecoverable error then initializeWithLimitedFunctionality responses w1
            else Some w1)
         else if response = 2 then
           (let w2 = reportIssue env error w1 in Some (w2\<lparr>trace := trace w2 @ [AppQuit]\<rparr>))
         else Some w1)"
  by pat_completeness auto
termination
  by (relation "measure (\<lambda>x. case x of
         Inl (env, rs, w) \<Rightarrow> 2 * length rs + 1
       | Inr (env, e, rs, w) \<Rightarrow> 2 * length rs)") auto

subsection \<open>Shutdown\<close>

definition forceKillPythonProcesses :: "env \<Rightarrow> app \<Rightarrow> app" where
  "forceKillPythonProcesses env w =
     (let cmd = (if platform env = ''win32'' then ''taskkill /f /im python.exe''
                 else ''pkill -f python'')
      in called (ExecAsync cmd) (execAsync env cmd (length (trace w))) w)"

definition killPythonProcesses :: "env \<Rightarrow> app \<Rightarrow> app" where
  "killPythonProcesses env w =
     (let ok = kill env (length (trace w));
          w1 = called Kill ok w
      in if ok then w1 else forceKillPythonProcesses env w1)"

definition forceExit :: "app \<Rightarrow> app" where
  "forceExit w = w\<lparr>trace := trace w @ [AppExit 1]\<rparr>"

definition handleGracefulShutdown :: "env \<Rightarrow> app \<Rightarrow> app" where
  "handleGracefulShutdown env w =
     (let ok1 = stopAllDownloads env (length (trace w));
          w1 = called StopAllDownloads ok1 w
      in if \<not> ok1 then forceExit w1
         else
          (let ok2 = disconnect env (length (trace w1));
               w2 = called Disconnect ok2 w1
           in if \<not> ok2 then forceExit w2
              else
               (let w3 = killPythonProcesses env w2;
                    ok4 = releaseLock env (length (trace w3));
                    w4 = called ReleaseLock ok4 w3
                in if \<not> ok4 then forceExit w4 else w4)))"

section \<open>Vocabulary of the properties\<close>


text \<open>The waits of \<open>k\<close> consecutive retries that start at attempt \<open>a\<close>: each doubles.\<close>

definition backoff :: "int \<Rightarrow> int \<Rightarrow> nat \<Rightarrow> int list" where
  "backoff d a k = map (\<lambda>i. d * 2 ^ (nat a + i)) [0..<k]"

text \<open>
  The sign-out transition from \<open>w\<close> to \<open>w'\<close>: the session is empty, both stored
  records are deleted, and the main window, when there is one, was sent
  \<^verbatim>\<open>on-signout\<close>.
\<close>

definition signedOut :: "world \<Rightarrow> world \<Rightarrow> bool" where
  "signedOut w w' =
     (userAuth w' = emptyAuth \<and> dbAuth w' = None \<and> dbUser w' = None
      \<and> sent w' = sent w @ (if mainWindow w then [''on-signout''] else []))"

text \<open>The entry pushed to \<^verbatim>\<open>startupErrors\<close> for a service whose \<^verbatim>\<open>init\<close> ended as \<open>r\<close>.\<close>

definition wrapFailure :: "string \<Rightarrow> string option \<Rightarrow> CriticalStartupError list" where
  "wrapFailure name r =
     (case r of
        None \<Rightarrow> []
      | Some msg \<Rightarrow> [CriticalStartupError (name @ '' failed to initialize: '' @ msg) name True])"

section \<open>Concrete inputs\<close>

text \<open>The world as the class is loaded: signed out, nothing stored, nothing sent.\<close>

definition initialWorld :: world where
  "initialWorld = \<lparr>userAuth = emptyAuth, dbAuth = None, dbUser = None, mainWindow = True,
     sent = [], now = 1000000, slept = [], calls = 0, collaborators = []\<rparr>"


text \<open>
  Four rejections of Axios, a 503 response, a 401 response, a timeout and a refused
  connection (no response, the request was made), and the errors the code catches for
  them when the body parses.
\<close>

definition status503 :: rejection where
  "status503 = Rejection (Some ''ERR_BAD_RESPONSE'') (Some 503) True
     ''Request failed with status code 503''"

definition status401 :: rejection where
  "status401 = Rejection (Some ''ERR_BAD_REQUEST'') (Some 401) True
     ''Request failed with status code 401''"

definition timeout :: rejection where
  "timeout = Rejection (Some ''ETIMEDOUT'') None True ''connect ETIMEDOUT 203.0.113.7:443''"

definition refused :: rejection where
  "refused = Rejection (Some ''ECONNREFUSED'') None True ''connect ECONNREFUSED 127.0.0.1:443''"

definition serviceUnavailable :: js_error where
  "serviceUnavailable = AxiosError (Some ''ERR_BAD_RESPONSE'') (Some 503)
     ''Request failed with status code 503''"

definition unauthorized :: js_error where
  "unauthorized = AxiosError (Some ''ERR_BAD_REQUEST'') (Some 401)
     ''Request failed with status code 401''"

definition connectionRefused :: js_error where
  "connectionRefused =
     Error None ''Request failed with ECONNREFUSED connect ECONNREFUSED 127.0.0.1:443''"

text \<open>A body that is not JSON text, with what \<^verbatim>\<open>JSON.parse\<close> says of it.\<close>

definition plainText :: body where
  "plainText = OtherBody ''Unexpected token h in JSON at position 0''"

definition timedOut :: js_error where
  "timedOut = Error None ''Request failed with ETIMEDOUT connect ETIMEDOUT 203.0.113.7:443''"

text \<open>A signed-in world whose token is still valid, and the same world after expiry.\<close>

definition signedInWorld :: world where
  "signedInWorld = \<lparr>userAuth = \<lparr>authToken = ''token'', refreshToken = ''refresh'',
       expirationTimestamp = 2000000, subscription = None\<rparr>,
     dbAuth = Some (Auth ''token'' (Some ''refresh'') 2000000), dbUser = Some ''user'',
     mainWindow = True, sent = [], now = 1000000, slept = [], calls = 0, collaborators = []\<rparr>"

definition expiredWorld :: world where
  "expiredWorld = signedInWorld\<lparr>now := 3000000\<rparr>"

definition noOptions :: HydraApiOptions where
  "noOptions = \<lparr>needsAuth = None, needsSubscription = None, ifModifiedSince = None,
     retryAttempts = None, retryDelay = None\<rparr>"

text \<open>
  Backends: one that answers the requests with the listed outcomes and then succeeds,
  one that rejects everything with the same error, one that succeeds always.
\<close>

definition scripted :: "(rejection + unit) list \<Rightarrow> unit server" where
  "scripted outcomes =
     \<lparr>respond = (\<lambda>k. if k < length outcomes then outcomes ! k else Inr ()),
      refresh = (\<lambda>k. Inl (Rejection None None False ''no refresh expected''))\<rparr>"

definition rejecting :: "rejection \<Rightarrow> unit server" where
  "rejecting r = \<lparr>respond = (\<lambda>k. Inl r), refresh = (\<lambda>k. Inl r)\<rparr>"

definition refreshing :: "unit server" where
  "refreshing = \<lparr>respond = (\<lambda>k. Inr ()), refresh = (\<lambda>k. Inr (''fresh token'', 3600))\<rparr>"

text \<open>The startup side: a fresh process, and collaborators that all succeed.\<close>

definition lockFailure :: thrown where
  "lockFailure = Critical (CriticalStartupError
     ''Failed to acquire application lock after multiple attempts. Another instance may be running.''
     ''Lock'' False)"

definition initialApp :: app where
  "initialApp = \<lparr>startupErrors = [], trace = []\<rparr>"

definition quietEnv :: env where
  "quietEnv = \<lparr>acquireLock = (\<lambda>t. True), releaseLock = (\<lambda>t. True), dbGet = (\<lambda>t. True),
     dbPut = (\<lambda>t. True), checkIfPathsAreAvailable = (\<lambda>t. True), init = (\<lambda>name t. None),
     stopAllDownloads = (\<lambda>t. True), disconnect = (\<lambda>t. True), kill = (\<lambda>t. True),
     execAsync = (\<lambda>cmd t. True), platform = ''linux'', arch = ''x64'', version = ''v20.0.0'',
     electronVersion = ''31.0.0'', toISOString = (\<lambda>t. ''2025-01-01T00:00:00.000Z''),
     stack = (\<lambda>e. thrownName e @ '': '' @ thrownMessage e)\<rparr>"

definition lockedEnv :: env where
  "lockedEnv = quietEnv\<lparr>acquireLock := (\<lambda>t. False)\<rparr>"

definition twoFailEnv :: env where
  "twoFailEnv = quietEnv\<lparr>init := (\<lambda>name t.
     if name = ''PythonRPC'' then Some ''spawn python ENOENT''
     else if name = ''Ludusavi'' then Some ''EACCES: permission denied''
     else None)\<rparr>"

definition killFailsEnv :: env where
  "killFailsEnv = quietEnv\<lparr>kill := (\<lambda>t. False)\<rparr>"

section \<open>Properties of the retry engine\<close>

lemma retryable_not_terminal:
  "isRetryableError e \<Longrightarrow>
     e \<noteq> UserNotLoggedInError \<and> e \<noteq> SubscriptionRequiredError \<and> \<not> isUnauthorized e"
  by (cases e) (auto simp: isRetryableError_def split: option.splits)

lemma calls_delay [simp]: "calls (delay ms w) = calls w"
  by (simp add: delay_def)






section \<open>Requests against a scripted backend\<close>

lemma request_rejected:
  "outcome srv b (calls w) = Inl e \<Longrightarrow> \<not> isUnauthorized e \<Longrightarrow>
     request srv b w = (Inl e, w\<lparr>calls := Suc (calls w)\<rparr>)"
  by (simp add: request_def instanceRequest_def handleUnauthorizedError_def)

lemma request_unauthorized:
  "outcome srv b (calls w) = Inl e \<Longrightarrow> isUnauthorized e \<Longrightarrow>
     request srv b w = (Inl e, sendSignOutEvent
        (w\<lparr>calls := Suc (calls w), userAuth := emptyAuth, dbAuth := None, dbUser := None\<rparr>))"
  by (simp add: request_def instanceRequest_def handleUnauthorizedError_def)

lemma request_resolved:
  "outcome srv b (calls w) = Inr v \<Longrightarrow> request srv b w = (Inr v, w\<lparr>calls := Suc (calls w)\<rparr>)"
  by (simp add: request_def instanceRequest_def)

lemma retryLoop_retry:
  assumes "outcome srv b (calls w) = Inl e" "isRetryableError e" "a < n"
  shows "retryLoop (request srv b) n d a le w =
           retryLoop (request srv b) n d (a + 1) (Some e)
             (delay (d * 2 ^ nat a) (w\<lparr>calls := Suc (calls w)\<rparr>))"
proof -
  from assms(2) have nt: "e \<noteq> UserNotLoggedInError" "e \<noteq> SubscriptionRequiredError"
    "\<not> isUnauthorized e"
    using retryable_not_terminal by blast+
  show ?thesis
    using assms by (subst retryLoop.simps) (simp add: request_rejected nt)
qed

lemma retryLoop_unauthorized:
  assumes "outcome srv b (calls w) = Inl e" "isUnauthorized e" "a \<le> n"
  shows "retryLoop (request srv b) n d a le w = (Thrown e, sendSignOutEvent
        (w\<lparr>calls := Suc (calls w), userAuth := emptyAuth, dbAuth := None, dbUser := None\<rparr>))"
proof -
  from assms(2) have "e \<noteq> UserNotLoggedInError" "e \<noteq> SubscriptionRequiredError"
    by auto
  then show ?thesis
    using assms by (subst retryLoop.simps) (simp add: request_unauthorized)
qed

lemma retryLoop_last:
  assumes "outcome srv b (calls w) = Inl e" "isRetryableError e"
  shows "retryLoop (request srv b) n d n le w = (Fell (Some e), w\<lparr>calls := Suc (calls w)\<rparr>)"
proof -
  from assms(2) have nt: "e \<noteq> UserNotLoggedInError" "e \<noteq> SubscriptionRequiredError"
    "\<not> isUnauthorized e"
    using retryable_not_terminal by blast+
  show ?thesis
    using assms by (subst retryLoop.simps) (simp add: request_rejected nt)
qed

lemma retryLoop_break:
  assumes "outcome srv b (calls w) = Inl e" "\<not> isRetryableError e" "\<not> isUnauthorized e"
    "e \<noteq> UserNotLoggedInError" "e \<noteq> SubscriptionRequiredError" "a \<le> n"
  shows "retryLoop (request srv b) n d a le w = (Fell (Some e), w\<lparr>calls := Suc (calls w)\<rparr>)"
  using assms by (subst retryLoop.simps) (simp add: request_rejected)

lemma retryLoop_resolved:
  assumes "outcome srv b (calls w) = Inr v" "a \<le> n"
  shows "retryLoop (request srv b) n d a le w = (Returned v, w\<lparr>calls := Suc (calls w)\<rparr>)"
  using assms by (subst retryLoop.simps) (simp add: request_resolved)

lemma backoff_0: "backoff d a 0 = []"
  by (simp add: backoff_def)

lemma backoff_Suc: "backoff d a (Suc k) = backoff d a k @ [d * 2 ^ (nat a + k)]"
  by (simp add: backoff_def)

text \<open>
  \<open>k\<close> retryable failures in a row, with room for \<open>k\<close> more attempts, move the loop
  from attempt \<open>a\<close> to attempt \<open>a + k\<close>; only the request counter, the waits and
  the clock change.
\<close>



lemma retryLoop_skips:
  assumes a: "0 \<le> a"
  shows "\<forall>i<k. \<exists>e. outcome srv b (calls w + i) = Inl e \<and> isRetryableError e \<Longrightarrow>
         a + int k \<le> n \<Longrightarrow>
         \<exists>le' t. retryLoop (request srv b) n d a le w =
           retryLoop (request srv b) n d (a + int k) le'
             (w\<lparr>calls := calls w + k, slept := slept w @ backoff d a k, now := t\<rparr>)"
proof (induction k)
  case 0
  have "w = w\<lparr>calls := calls w + 0, slept := slept w @ backoff d a 0, now := now w\<rparr>"
    by (simp add: backoff_def)
  then show ?case by (metis add.right_neutral of_nat_0)
next
  case (Suc k)
  from Suc.prems have "\<forall>i<k. \<exists>e. outcome srv b (calls w + i) = Inl e \<and> isRetryableError e"
    and "a + int k \<le> n" by auto
  from Suc.IH[OF this] obtain le' t where
    eq: "retryLoop (request srv b) n d a le w = retryLoop (request srv b) n d (a + int k) le'
             (w\<lparr>calls := calls w + k, slept := slept w @ backoff d a k, now := t\<rparr>)"
    by blast
  let ?wk = "w\<lparr>calls := calls w + k, slept := slept w @ backoff d a k, now := t\<rparr>"
  from Suc.prems obtain e where e: "outcome srv b (calls w + k) = Inl e" "isRetryableError e"
    by blast
  have lt: "a + int k < n" using Suc.prems by simp
  have "retryLoop (request srv b) n d (a + int k) le' ?wk =
          retryLoop (request srv b) n d (a + int k + 1) (Some e)
             (delay (d * 2 ^ nat (a + int k)) (?wk\<lparr>calls := Suc (calls ?wk)\<rparr>))"
    by (rule retryLoop_retry) (use e lt in simp_all)
  moreover have "delay (d * 2 ^ nat (a + int k)) (?wk\<lparr>calls := Suc (calls ?wk)\<rparr>) =
     w\<lparr>calls := calls w + Suc k, slept := slept w @ backoff d a (Suc k),
       now := t + max 0 (d * 2 ^ nat (a + int k))\<rparr>"
    using a by (simp add: delay_def backoff_def nat_add_distrib)
  moreover have "a + int k + 1 = a + int (Suc k)" by simp
  ultimately show ?case using eq by metis
qed

lemma retryRequest_resolved:
  assumes k: "int k \<le> (case ra of None \<Rightarrow> DEFAULT_RETRY_ATTEMPTS | Some m \<Rightarrow> m)"
    and r: "\<forall>i<k. \<exists>e. outcome srv b (calls w + i) = Inl e \<and> isRetryableError e"
    and u: "outcome srv b (calls w + k) = Inr v"
  shows "\<exists>w'. retryRequest (request srv b) ra rd w = (Inr v, w') \<and> calls w' = calls w + k + 1
           \<and> slept w' = slept w
                @ backoff (case rd of None \<Rightarrow> DEFAULT_RETRY_DELAY | Some x \<Rightarrow> x) 0 k
           \<and> userAuth w' = userAuth w"
proof -
  let ?n = "case ra of None \<Rightarrow> DEFAULT_RETRY_ATTEMPTS | Some m \<Rightarrow> m"
  let ?d = "case rd of None \<Rightarrow> DEFAULT_RETRY_DELAY | Some x \<Rightarrow> x"
  from retryLoop_skips[where a = 0 and k = k and srv = srv and b = b and w = w and n = ?n and d = ?d and le = None] r k obtain le' t where
    eq: "retryLoop (request srv b) ?n ?d 0 None w = retryLoop (request srv b) ?n ?d (int k) le'
             (w\<lparr>calls := calls w + k, slept := slept w @ backoff ?d 0 k, now := t\<rparr>)"
    by auto
  let ?wk = "w\<lparr>calls := calls w + k, slept := slept w @ backoff ?d 0 k, now := t\<rparr>"
  have "retryLoop (request srv b) ?n ?d (int k) le' ?wk = (Returned v, ?wk\<lparr>calls := Suc (calls ?wk)\<rparr>)"
    by (rule retryLoop_resolved) (use u k in simp_all)
  with eq show ?thesis
    by (simp add: retryRequest_def)
qed

lemma retryRequest_unauthorized:
  assumes k: "int k \<le> (case ra of None \<Rightarrow> DEFAULT_RETRY_ATTEMPTS | Some m \<Rightarrow> m)"
    and r: "\<forall>i<k. \<exists>e. outcome srv b (calls w + i) = Inl e \<and> isRetryableError e"
    and u: "outcome srv b (calls w + k) = Inl err" "isUnauthorized err"
  shows "\<exists>w'. retryRequest (request srv b) ra rd w = (Inl err, w') \<and> signedOut w w'
            \<and> calls w' = calls w + k + 1"
proof -
  let ?n = "case ra of None \<Rightarrow> DEFAULT_RETRY_ATTEMPTS | Some m \<Rightarrow> m"
  let ?d = "case rd of None \<Rightarrow> DEFAULT_RETRY_DELAY | Some x \<Rightarrow> x"
  from retryLoop_skips[where a = 0 and k = k and srv = srv and b = b and w = w and n = ?n and d = ?d and le = None] r k obtain le' t where
    eq: "retryLoop (request srv b) ?n ?d 0 None w = retryLoop (request srv b) ?n ?d (int k) le'
             (w\<lparr>calls := calls w + k, slept := slept w @ backoff ?d 0 k, now := t\<rparr>)"
    by auto
  let ?wk = "w\<lparr>calls := calls w + k, slept := slept w @ backoff ?d 0 k, now := t\<rparr>"
  have "retryLoop (request srv b) ?n ?d (int k) le' ?wk = (Thrown err, sendSignOutEvent
        (?wk\<lparr>calls := Suc (calls ?wk), userAuth := emptyAuth, dbAuth := None, dbUser := None\<rparr>))"
    by (rule retryLoop_unauthorized) (use u k in simp_all)
  with eq show ?thesis
    by (simp add: retryRequest_def signedOut_def sendSignOutEvent_def)
qed

lemma request_unauthorized_signedOut:
  assumes u: "outcome srv b (calls w) = Inl err" "isUnauthorized err"
  shows "\<exists>w'. request srv b w = (Inl err, w') \<and> signedOut w w' \<and> calls w' = calls w + 0 + 1"
  using request_unauthorized[OF u] by (simp add: signedOut_def sendSignOutEvent_def)

lemma retryRequest_exhausted:
  assumes n: "n = (case ra of None \<Rightarrow> DEFAULT_RETRY_ATTEMPTS | Some m \<Rightarrow> m)" "0 \<le> n"
    and r: "\<forall>i<nat n. \<exists>e. outcome srv b (calls w + i) = Inl e \<and> isRetryableError e"
    and l: "outcome srv b (calls w + nat n) = Inl e" "isRetryableError e"
  shows "\<exists>w'. retryRequest (request srv b) ra rd w = (Inl (categorise (Some e)), w')
            \<and> calls w' = calls w + nat n + 1
            \<and> slept w' = slept w @ backoff (case rd of None \<Rightarrow> DEFAULT_RETRY_DELAY | Some x \<Rightarrow> x) 0 (nat n)"
proof -
  let ?d = "case rd of None \<Rightarrow> DEFAULT_RETRY_DELAY | Some x \<Rightarrow> x"
  from retryLoop_skips[where a = 0 and k = "nat n" and srv = srv and b = b and w = w and n = n and d = ?d and le = None] r n obtain le' t where
    eq: "retryLoop (request srv b) n ?d 0 None w = retryLoop (request srv b) n ?d n le'
             (w\<lparr>calls := calls w + nat n, slept := slept w @ backoff ?d 0 (nat n), now := t\<rparr>)"
    by auto
  let ?wk = "w\<lparr>calls := calls w + nat n, slept := slept w @ backoff ?d 0 (nat n), now := t\<rparr>"
  have "retryLoop (request srv b) n ?d n le' ?wk = (Fell (Some e), ?wk\<lparr>calls := Suc (calls ?wk)\<rparr>)"
    by (rule retryLoop_last) (use l in simp_all)
  with eq show ?thesis
    using n(1) by (simp add: retryRequest_def)
qed

text \<open>What the concrete backends settle with.\<close>

lemma settle_simps:
  "settle b (Inl r) = Inl (responseErrorInterceptor b r)" "settle b (Inr v) = Inr v"
  by (simp_all add: settle_def ADD_LOG_INTERCEPTOR_def)

lemma parsed: "parseFailure b = None \<Longrightarrow> responseErrorInterceptor b r = passedOn r"
  by (simp add: responseErrorInterceptor_def)

lemma unparsed: "responseErrorInterceptor (OtherBody msg) r = SyntaxError msg"
  by (simp add: responseErrorInterceptor_def)

lemma outcome_response:
  "parseFailure b = None \<Longrightarrow> respond srv k = Inl (Rejection c (Some st) rq m) \<Longrightarrow>
     outcome srv b k = Inl (AxiosError c (Some st) m)"
  by (simp add: outcome_def settle_simps parsed)

lemma outcome_scripted:
  "outcome (scripted xs) b k = (if k < length xs then settle b (xs ! k) else Inr ())"
  by (simp add: outcome_def scripted_def settle_simps)

lemma outcome_rejecting: "outcome (rejecting r) b k = Inl (responseErrorInterceptor b r)"
  by (simp add: outcome_def rejecting_def settle_simps)

lemma refreshOutcome_rejecting: "refreshOutcome (rejecting r) k = Inl (passedOn r)"
  by (simp add: refreshOutcome_def rejecting_def settle_simps parsed)

lemma refreshOutcome_refreshing: "refreshOutcome refreshing k = Inr (''fresh token'', 3600)"
  by (simp add: refreshOutcome_def refreshing_def settle_simps)

lemma intercepted:
  "passedOn status503 = serviceUnavailable"
  "passedOn status401 = unauthorized"
  "passedOn timeout = timedOut"
  "passedOn refused = connectionRefused"
  by (simp_all add: status503_def status401_def timeout_def refused_def serviceUnavailable_def
      unauthorized_def timedOut_def connectionRefused_def)

lemma retryable_503: "isRetryableError serviceUnavailable"
  by (simp add: serviceUnavailable_def isRetryableError_def)

lemma validate_signedIn: "validateOptions srv noOptions signedInWorld = (Inr (), signedInWorld)"
  by (simp add: validateOptions_def noOptions_def signedInWorld_def isLoggedIn_def
      revalidateAccessTokenIfExpired_def)

lemma noOptions_retry: "retryAttempts noOptions = None" "retryDelay noOptions = None"
  by (simp_all add: noOptions_def)

text \<open>A 503 and then success: the retried request succeeds, the single one fails.\<close>

lemma flaky_retried:
  assumes p: "parseFailure b = None"
  shows "\<exists>w'. retryRequest (request (scripted [Inl status503]) b) None None signedInWorld =
     (Inr (), w') \<and> calls w' = 2 \<and> slept w' = [1000]"
proof -
  have r: "\<forall>i<1. \<exists>e. outcome (scripted [Inl status503]) b (calls signedInWorld + i) = Inl e
             \<and> isRetryableError e"
    using p by (simp add: outcome_scripted settle_simps parsed intercepted retryable_503
        signedInWorld_def)
  have u: "outcome (scripted [Inl status503]) b (calls signedInWorld + 1) = Inr ()"
    by (simp add: outcome_scripted signedInWorld_def)
  have k: "int 1 \<le> (case None of None \<Rightarrow> DEFAULT_RETRY_ATTEMPTS | Some m \<Rightarrow> m)"
    by (simp add: DEFAULT_RETRY_ATTEMPTS_def)
  from retryRequest_resolved[OF k r u, where rd = None] obtain w' where
    "retryRequest (request (scripted [Inl status503]) b) None None signedInWorld = (Inr (), w')"
    "calls w' = calls signedInWorld + 1 + 1"
    "slept w' = slept signedInWorld @ backoff DEFAULT_RETRY_DELAY 0 1"
    by auto
  then show ?thesis
    by (simp add: DEFAULT_RETRY_DELAY_def backoff_0 backoff_Suc signedInWorld_def)
qed

lemma flaky_once:
  assumes p: "parseFailure b = None"
  shows "request (scripted [Inl status503]) b signedInWorld =
     (Inl serviceUnavailable, signedInWorld\<lparr>calls := 1\<rparr>)"
proof -
  have "outcome (scripted [Inl status503]) b (calls signedInWorld) = Inl serviceUnavailable"
    using p by (simp add: outcome_scripted settle_simps parsed intercepted signedInWorld_def)
  moreover have "\<not> isUnauthorized serviceUnavailable"
    by (simp add: serviceUnavailable_def)
  ultimately have "request (scripted [Inl status503]) b signedInWorld =
      (Inl serviceUnavailable, signedInWorld\<lparr>calls := Suc (calls signedInWorld)\<rparr>)"
    by (rule request_rejected)
  then show ?thesis by (simp add: signedInWorld_def)
qed

text \<open>
  A request that is rejected with an error that is neither retryable nor a 401, by a
  signed-in caller with no options: once through \<open>retryRequest\<close>, once directly.
\<close>

lemma rejected_once:
  assumes o: "outcome srv b (calls signedInWorld) = Inl e"
    and nr: "\<not> isRetryableError e" "\<not> isUnauthorized e"
      "e \<noteq> UserNotLoggedInError" "e \<noteq> SubscriptionRequiredError"
  shows "retryRequest (request srv b) None None signedInWorld =
           (Inl (categorise (Some e)), signedInWorld\<lparr>calls := 1\<rparr>)"
    and "request srv b signedInWorld = (Inl e, signedInWorld\<lparr>calls := 1\<rparr>)"
proof -
  have c: "calls signedInWorld = 0" by (simp add: signedInWorld_def)
  have "retryLoop (request srv b) 3 1000 0 None signedInWorld =
          (Fell (Some e), signedInWorld\<lparr>calls := Suc (calls signedInWorld)\<rparr>)"
    using o nr by (rule retryLoop_break) simp
  then show "retryRequest (request srv b) None None signedInWorld =
           (Inl (categorise (Some e)), signedInWorld\<lparr>calls := 1\<rparr>)"
    by (simp add: retryRequest_def DEFAULT_RETRY_ATTEMPTS_def DEFAULT_RETRY_DELAY_def c)
  have "request srv b signedInWorld =
          (Inl e, signedInWorld\<lparr>calls := Suc (calls signedInWorld)\<rparr>)"
    using o nr(2) by (rule request_rejected)
  then show "request srv b signedInWorld = (Inl e, signedInWorld\<lparr>calls := 1\<rparr>)"
    by (simp add: c)
qed

section \<open>Properties of the API client\<close>

text \<open>
  C2. Only \<open>get\<close> and \<open>post\<close> wrap their request in \<open>retryRequest\<close>. Against a backend
  that answers the first request with a 503 and every later one with success, a
  signed-in \<open>get\<close> or \<open>post\<close> with no options waits 1000 ms, issues a second request
  and succeeds, while \<open>put\<close>, \<open>patch\<close> and \<open>delete\<close> issue one request, wait for
  nothing and throw the raw 503 error.
\<close>

theorem put_patch_delete_not_retried:
  "fst (get (scripted [Inl status503]) noOptions signedInWorld) = Inr ()
   \<and> calls (snd (get (scripted [Inl status503]) noOptions signedInWorld)) = 2
   \<and> slept (snd (get (scripted [Inl status503]) noOptions signedInWorld)) = [1000]
   \<and> fst (post (scripted [Inl status503]) JsonBody noOptions signedInWorld) = Inr ()
   \<and> calls (snd (post (scripted [Inl status503]) JsonBody noOptions signedInWorld)) = 2
   \<and> slept (snd (post (scripted [Inl status503]) JsonBody noOptions signedInWorld)) = [1000]
   \<and> put (scripted [Inl status503]) JsonBody noOptions signedInWorld =
       (Inl serviceUnavailable, signedInWorld\<lparr>calls := 1\<rparr>)
   \<and> patch (scripted [Inl status503]) JsonBody noOptions signedInWorld =
       (Inl serviceUnavailable, signedInWorld\<lparr>calls := 1\<rparr>)
   \<and> delete (scripted [Inl status503]) noOptions signedInWorld =
       (Inl serviceUnavailable, signedInWorld\<lparr>calls := 1\<rparr>)"
proof -
  have pn: "parseFailure NoBody = None" and pj: "parseFailure JsonBody = None"
    by simp_all
  from flaky_retried[OF pn] obtain w' where
    g: "retryRequest (request (scripted [Inl status503]) NoBody) None None signedInWorld =
     (Inr (), w')" "calls w' = 2" "slept w' = [1000]" by blast
  from flaky_retried[OF pj] obtain w'' where
    h: "retryRequest (request (scripted [Inl status503]) JsonBody) None None signedInWorld =
     (Inr (), w'')" "calls w'' = 2" "slept w'' = [1000]" by blast
  show ?thesis
    by (simp add: get_def post_def put_def patch_def delete_def validate_signedIn
        noOptions_retry g h flaky_once[OF pn] flaky_once[OF pj])
qed

text \<open>
  Where a 401 is terminal. In \<open>get\<close> and \<open>delete\<close>, and in \<open>post\<close>, \<open>put\<close> and
  \<open>patch\<close> when the body is absent or JSON text, an attempt answered with an HTTP 401
  ends the call: the session is reset to its empty state, the stored auth and user
  records are deleted, the main window (when there is one) is sent \<^verbatim>\<open>on-signout\<close>,
  the same error is thrown to the caller, and no further request is issued. For \<open>get\<close>
  and \<open>post\<close> the 401 may come after \<open>k\<close> retried failures.
\<close>

lemma unauthorized_is_terminal:
  assumes p: "parseFailure data = None"
    and v: "validateOptions srv options w = (Inr (), w1)"
    and k: "int k \<le> (case retryAttempts options of None \<Rightarrow> DEFAULT_RETRY_ATTEMPTS | Some m \<Rightarrow> m)"
    and r: "\<forall>i<k. \<exists>e. outcome srv data (calls w1 + i) = Inl e \<and> isRetryableError e"
    and u: "respond srv (calls w1 + k) = Inl (Rejection c (Some 401) rq m)"
  shows "(\<exists>w'. post srv data options w = (Inl (AxiosError c (Some 401) m), w')
             \<and> signedOut w1 w' \<and> calls w' = calls w1 + k + 1)
       \<and> (data = NoBody \<longrightarrow>
            (\<exists>w'. get srv options w = (Inl (AxiosError c (Some 401) m), w')
               \<and> signedOut w1 w' \<and> calls w' = calls w1 + k + 1))
       \<and> (k = 0 \<longrightarrow> (\<forall>op \<in> {put, patch}.
             \<exists>w'. op srv data options w = (Inl (AxiosError c (Some 401) m), w')
               \<and> signedOut w1 w' \<and> calls w' = calls w1 + k + 1))
       \<and> (k = 0 \<and> data = NoBody \<longrightarrow>
            (\<exists>w'. delete srv options w = (Inl (AxiosError c (Some 401) m), w')
               \<and> signedOut w1 w' \<and> calls w' = calls w1 + k + 1))"
proof -
  have un: "isUnauthorized (AxiosError c (Some 401) m)" by simp
  have u': "outcome srv data (calls w1 + k) = Inl (AxiosError c (Some 401) m)"
    using p u by (rule outcome_response)
  from retryRequest_unauthorized[OF k r u' un]
  have A: "\<exists>w'. retryRequest (request srv data) (retryAttempts options) (retryDelay options) w1
             = (Inl (AxiosError c (Some 401) m), w') \<and> signedOut w1 w'
            \<and> calls w' = calls w1 + k + 1" .
  have B: "k = 0 \<Longrightarrow> \<exists>w'. request srv data w1 = (Inl (AxiosError c (Some 401) m), w')
            \<and> signedOut w1 w' \<and> calls w' = calls w1 + k + 1"
    using request_unauthorized_signedOut[of srv data w1, OF _ un] u' by simp
  show ?thesis
    using A B by (auto simp: get_def post_def put_def patch_def delete_def v)
qed

text \<open>
  C3. A signed-in \<open>post\<close>, \<open>put\<close> or \<open>patch\<close> whose body is not JSON text and whose
  request is answered with an HTTP 401 does not run the sign-out: the interceptor's
  \<^verbatim>\<open>JSON.parse\<close> throws before the response is looked at, \<open>handleUnauthorizedError\<close>
  is handed the \<^verbatim>\<open>SyntaxError\<close>, and the world is left as it was but for the one
  request: session and stored records in place, nothing sent. \<open>post\<close> throws a
  \<open>NetworkError\<close> wrapping the \<^verbatim>\<open>SyntaxError\<close>, \<open>put\<close> and \<open>patch\<close> throw the
  \<^verbatim>\<open>SyntaxError\<close>; the 401 never reaches the caller. The same 401 on a \<open>get\<close>, or on
  a \<open>post\<close> with a JSON body, is thrown to the caller after the sign-out.
\<close>

theorem unauthorized_lost_behind_parse_error:
  "post (rejecting status401) plainText noOptions signedInWorld =
     (Inl (NetworkError ''Request failed: Unexpected token h in JSON at position 0''
             (SyntaxError ''Unexpected token h in JSON at position 0'')),
      signedInWorld\<lparr>calls := 1\<rparr>)
   \<and> put (rejecting status401) plainText noOptions signedInWorld =
       (Inl (SyntaxError ''Unexpected token h in JSON at position 0''),
        signedInWorld\<lparr>calls := 1\<rparr>)
   \<and> patch (rejecting status401) plainText noOptions signedInWorld =
       (Inl (SyntaxError ''Unexpected token h in JSON at position 0''),
        signedInWorld\<lparr>calls := 1\<rparr>)
   \<and> userAuth (signedInWorld\<lparr>calls := 1\<rparr>) \<noteq> emptyAuth
   \<and> fst (get (rejecting status401) noOptions signedInWorld) = Inl unauthorized
   \<and> signedOut signedInWorld (snd (get (rejecting status401) noOptions signedInWorld))
   \<and> fst (post (rejecting status401) JsonBody noOptions signedInWorld) = Inl unauthorized
   \<and> signedOut signedInWorld
        (snd (post (rejecting status401) JsonBody noOptions signedInWorld))"
proof -
  let ?msg = "''Unexpected token h in JSON at position 0''"
  have o: "outcome (rejecting status401) plainText (calls signedInWorld) = Inl (SyntaxError ?msg)"
    by (simp add: outcome_rejecting plainText_def unparsed)
  have nr: "\<not> isRetryableError (SyntaxError ?msg)" "\<not> isUnauthorized (SyntaxError ?msg)"
    "SyntaxError ?msg \<noteq> UserNotLoggedInError" "SyntaxError ?msg \<noteq> SubscriptionRequiredError"
    by (simp_all add: isRetryableError_def)
  note once = rejected_once[OF o nr]
  have cat: "categorise (Some (SyntaxError ?msg)) =
      NetworkError ''Request failed: Unexpected token h in JSON at position 0''
        (SyntaxError ?msg)"
    by (simp add: categorise_def)
  have A: "post (rejecting status401) plainText noOptions signedInWorld =
     (Inl (NetworkError ''Request failed: Unexpected token h in JSON at position 0''
             (SyntaxError ?msg)), signedInWorld\<lparr>calls := 1\<rparr>)"
    by (simp add: post_def validate_signedIn noOptions_retry once(1) cat)
  have B: "put (rejecting status401) plainText noOptions signedInWorld =
       (Inl (SyntaxError ?msg), signedInWorld\<lparr>calls := 1\<rparr>)"
    by (simp add: put_def validate_signedIn once(2))
  have C: "patch (rejecting status401) plainText noOptions signedInWorld =
       (Inl (SyntaxError ?msg), signedInWorld\<lparr>calls := 1\<rparr>)"
    by (simp add: patch_def validate_signedIn once(2))
  have D: "userAuth (signedInWorld\<lparr>calls := 1\<rparr>) \<noteq> emptyAuth"
    by (simp add: signedInWorld_def emptyAuth_def)
  have k: "int 0 \<le> (case None of None \<Rightarrow> DEFAULT_RETRY_ATTEMPTS | Some m \<Rightarrow> m)"
    by (simp add: DEFAULT_RETRY_ATTEMPTS_def)
  have un: "isUnauthorized unauthorized"
    by (simp add: unauthorized_def)
  have signs_out: "\<exists>w'. retryRequest (request (rejecting status401) b) None None signedInWorld
      = (Inl unauthorized, w') \<and> signedOut signedInWorld w'"
    if p: "parseFailure b = None" for b
  proof -
    have r: "\<forall>i<0. \<exists>e. outcome (rejecting status401) b (calls signedInWorld + i) = Inl e
               \<and> isRetryableError e"
      by simp
    have u: "outcome (rejecting status401) b (calls signedInWorld + 0) = Inl unauthorized"
      using p by (simp add: outcome_rejecting parsed intercepted)
    from retryRequest_unauthorized[OF k r u un, where rd = None] show ?thesis
      by blast
  qed
  from signs_out[of NoBody] obtain w' where
    g: "retryRequest (request (rejecting status401) NoBody) None None signedInWorld
      = (Inl unauthorized, w')" "signedOut signedInWorld w'" by auto
  from signs_out[of JsonBody] obtain w'' where
    h: "retryRequest (request (rejecting status401) JsonBody) None None signedInWorld
      = (Inl unauthorized, w'')" "signedOut signedInWorld w''" by auto
  have E: "fst (get (rejecting status401) noOptions signedInWorld) = Inl unauthorized"
    "signedOut signedInWorld (snd (get (rejecting status401) noOptions signedInWorld))"
    by (simp_all add: get_def validate_signedIn noOptions_retry g)
  have F: "fst (post (rejecting status401) JsonBody noOptions signedInWorld) = Inl unauthorized"
    "signedOut signedInWorld (snd (post (rejecting status401) JsonBody noOptions signedInWorld))"
    by (simp_all add: post_def validate_signedIn noOptions_retry h)
  show ?thesis
    by (intro conjI) (rule A, rule B, rule C, rule D, rule E(1), rule E(2), rule F(1),
        rule F(2))
qed

text \<open>
  C5. A signed-in \<open>get\<close> with no options whose connection is refused (no response, the
  request was made) issues that one request, waits for nothing and throws a
  \<open>NetworkError\<close>: the interceptor has replaced the Axios error by a plain error
  without \<^verbatim>\<open>code\<close>, which \<open>isRetryableError\<close> does not accept and the
  categorisation does not recognise. The Axios error itself is retryable and, as last
  error, becomes a \<open>BackendUnavailableError\<close>. A timeout goes the same way. A 503 on
  every attempt is retried three times with waits of 1000, 2000 and 4000 ms and ends
  as a \<open>NetworkError\<close> that carries the status and wraps the last error.
\<close>

theorem connection_failure_not_retried:
  "get (rejecting refused) noOptions signedInWorld =
     (Inl (NetworkError
             ''Request failed: Request failed with ECONNREFUSED connect ECONNREFUSED 127.0.0.1:443''
             connectionRefused),
      signedInWorld\<lparr>calls := 1\<rparr>)
   \<and> isRetryableError
        (AxiosError (Some ''ECONNREFUSED'') None ''connect ECONNREFUSED 127.0.0.1:443'')
   \<and> categorise
        (Some (AxiosError (Some ''ECONNREFUSED'') None ''connect ECONNREFUSED 127.0.0.1:443''))
       = BackendUnavailableError
           ''Backend service unavailable: connect ECONNREFUSED 127.0.0.1:443''
   \<and> get (rejecting timeout) noOptions signedInWorld =
       (Inl (NetworkError
               ''Request failed: Request failed with ETIMEDOUT connect ETIMEDOUT 203.0.113.7:443''
               timedOut),
        signedInWorld\<lparr>calls := 1\<rparr>)
   \<and> fst (get (rejecting status503) noOptions signedInWorld) =
       Inl (NetworkError ''Server error: 503'' serviceUnavailable)
   \<and> calls (snd (get (rejecting status503) noOptions signedInWorld)) = 4
   \<and> slept (snd (get (rejecting status503) noOptions signedInWorld)) = [1000, 2000, 4000]"
proof -
  have pn: "parseFailure NoBody = None" by simp
  have o1: "outcome (rejecting refused) NoBody (calls signedInWorld) = Inl connectionRefused"
    by (simp add: outcome_rejecting parsed intercepted)
  have n1: "\<not> isRetryableError connectionRefused" "\<not> isUnauthorized connectionRefused"
    "connectionRefused \<noteq> UserNotLoggedInError" "connectionRefused \<noteq> SubscriptionRequiredError"
    by (simp_all add: connectionRefused_def isRetryableError_def)
  have c1: "categorise (Some connectionRefused) = NetworkError
      ''Request failed: Request failed with ECONNREFUSED connect ECONNREFUSED 127.0.0.1:443''
      connectionRefused"
    by (simp add: categorise_def connectionRefused_def)
  have A: "get (rejecting refused) noOptions signedInWorld =
     (Inl (NetworkError
             ''Request failed: Request failed with ECONNREFUSED connect ECONNREFUSED 127.0.0.1:443''
             connectionRefused),
      signedInWorld\<lparr>calls := 1\<rparr>)"
    by (simp add: get_def validate_signedIn noOptions_retry rejected_once(1)[OF o1 n1] c1)
  have B: "isRetryableError
        (AxiosError (Some ''ECONNREFUSED'') None ''connect ECONNREFUSED 127.0.0.1:443'')"
    by (simp add: isRetryableError_def)
  have C: "categorise
        (Some (AxiosError (Some ''ECONNREFUSED'') None ''connect ECONNREFUSED 127.0.0.1:443''))
       = BackendUnavailableError
           ''Backend service unavailable: connect ECONNREFUSED 127.0.0.1:443''"
    by (simp add: categorise_def)
  have o2: "outcome (rejecting timeout) NoBody (calls signedInWorld) = Inl timedOut"
    by (simp add: outcome_rejecting parsed intercepted)
  have n2: "\<not> isRetryableError timedOut" "\<not> isUnauthorized timedOut"
    "timedOut \<noteq> UserNotLoggedInError" "timedOut \<noteq> SubscriptionRequiredError"
    by (simp_all add: timedOut_def isRetryableError_def)
  have c2: "categorise (Some timedOut) = NetworkError
      ''Request failed: Request failed with ETIMEDOUT connect ETIMEDOUT 203.0.113.7:443''
      timedOut"
    by (simp add: categorise_def timedOut_def)
  have D: "get (rejecting timeout) noOptions signedInWorld =
       (Inl (NetworkError
               ''Request failed: Request failed with ETIMEDOUT connect ETIMEDOUT 203.0.113.7:443''
               timedOut),
        signedInWorld\<lparr>calls := 1\<rparr>)"
    by (simp add: get_def validate_signedIn noOptions_retry rejected_once(1)[OF o2 n2] c2)
  have n: "(3::int) = (case None of None \<Rightarrow> DEFAULT_RETRY_ATTEMPTS | Some m \<Rightarrow> m)"
    "(0::int) \<le> 3"
    by (simp_all add: DEFAULT_RETRY_ATTEMPTS_def)
  have r: "\<forall>i<nat 3. \<exists>e. outcome (rejecting status503) NoBody (calls signedInWorld + i) = Inl e
             \<and> isRetryableError e"
    by (simp add: outcome_rejecting parsed intercepted retryable_503)
  have l: "outcome (rejecting status503) NoBody (calls signedInWorld + nat 3)
             = Inl serviceUnavailable"
    by (simp add: outcome_rejecting parsed intercepted)
  from retryRequest_exhausted[OF n r l retryable_503, where rd = None] obtain w' where
    e: "retryRequest (request (rejecting status503) NoBody) None None signedInWorld
       = (Inl (categorise (Some serviceUnavailable)), w')"
    "calls w' = calls signedInWorld + nat 3 + 1"
    "slept w' = slept signedInWorld @ backoff DEFAULT_RETRY_DELAY 0 (nat 3)"
    by auto
  have sh: "showNat 503 = ''503''"
    by (simp add: showNat.simps digit_def)
  have c3: "categorise (Some serviceUnavailable) =
      NetworkError ''Server error: 503'' serviceUnavailable"
    by (simp add: categorise_def serviceUnavailable_def sh)
  have b3: "backoff 1000 0 (nat 3) = [1000, 2000, 4000]"
    by (simp add: numeral_3_eq_3 backoff_0 backoff_Suc)
  have E: "fst (get (rejecting status503) noOptions signedInWorld) =
       Inl (NetworkError ''Server error: 503'' serviceUnavailable)"
    "calls (snd (get (rejecting status503) noOptions signedInWorld)) = 4"
    "slept (snd (get (rejecting status503) noOptions signedInWorld)) = [1000, 2000, 4000]"
  proof -
    have g: "get (rejecting status503) noOptions signedInWorld =
        (Inl (NetworkError ''Server error: 503'' serviceUnavailable), w')"
      by (simp add: get_def validate_signedIn noOptions_retry e(1) c3)
    have c: "calls signedInWorld = 0" "slept signedInWorld = []"
      by (simp_all add: signedInWorld_def)
    show "fst (get (rejecting status503) noOptions signedInWorld) =
       Inl (NetworkError ''Server error: 503'' serviceUnavailable)"
      by (simp add: g)
    show "calls (snd (get (rejecting status503) noOptions signedInWorld)) = 4"
      by (simp add: g e(2) c)
    show "slept (snd (get (rejecting status503) noOptions signedInWorld)) = [1000, 2000, 4000]"
      using b3 by (simp add: g e(3) c DEFAULT_RETRY_DELAY_def)
  qed
  show ?thesis
    by (intro conjI) (rule A, rule B, rule C, rule D, rule E(1), rule E(2), rule E(3))
qed

section \<open>Properties of the session\<close>

lemma request_keeps_empty:
  "userAuth w = emptyAuth \<Longrightarrow> request srv b w = (r, w') \<Longrightarrow> userAuth w' = emptyAuth"
  by (auto simp: request_def instanceRequest_def handleUnauthorizedError_def
      sendSignOutEvent_def split: sum.splits if_splits)

lemma retryLoop_keeps_empty:
  "k = nat (n + 1 - a) \<Longrightarrow> userAuth w = emptyAuth \<Longrightarrow>
     userAuth (snd (retryLoop (request srv b) n d a le w)) = emptyAuth"
proof (induction k arbitrary: a le w)
  case 0
  then have "\<not> a \<le> n" by simp
  then show ?case using 0 by (subst retryLoop.simps) simp
next
  case (Suc k)
  then have an: "a \<le> n" and k: "k = nat (n + 1 - (a + 1))" by simp_all
  obtain r w1 where rq: "request srv b w = (r, w1)" by (cases "request srv b w")
  with Suc.prems have e1: "userAuth w1 = emptyAuth" using request_keeps_empty by blast
  then have e2: "\<And>ms. userAuth (delay ms w1) = emptyAuth" by (simp add: delay_def)
  show ?case
    using an rq e1 Suc.IH[OF k e2]
    by (subst retryLoop.simps) (simp split: sum.splits)
qed

lemma retryRequest_keeps_empty:
  assumes "userAuth w = emptyAuth"
  shows "userAuth (snd (retryRequest (request srv b) ra rd w)) = emptyAuth"
proof -
  let ?n = "case ra of None \<Rightarrow> DEFAULT_RETRY_ATTEMPTS | Some n \<Rightarrow> n"
  let ?d = "case rd of None \<Rightarrow> DEFAULT_RETRY_DELAY | Some d \<Rightarrow> d"
  obtain x w' where rl: "retryLoop (request srv b) ?n ?d 0 None w = (x, w')"
    by (cases "retryLoop (request srv b) ?n ?d 0 None w")
  have "userAuth (snd (retryLoop (request srv b) ?n ?d 0 None w)) = emptyAuth"
    by (rule retryLoop_keeps_empty[OF refl assms])
  with rl have "userAuth w' = emptyAuth" by simp
  with rl show ?thesis
    by (cases x) (simp_all add: retryRequest_def)
qed

lemma handleSignOut_empty: "userAuth (handleSignOut srv w) = emptyAuth"
  by (simp add: handleSignOut_def post_def validateOptions_def retryRequest_keeps_empty)

text \<open>
  C4, as the code has it. Sign-out and the forced reset on a 401 always leave the three
  fields jointly empty. Sign-in leaves them jointly populated when the payload's
  access token and refresh token are non-empty and the computed expiry is not zero;
  the code checks none of this. A successful refresh leaves a populated session
  populated when the new access token is non-empty and the computed expiry is not zero;
  a refresh whose request is rejected leaves the session as it was.
\<close>

theorem session_transitions:
  "(payloadAccessToken p \<noteq> [] \<and> payloadRefreshToken p \<noteq> []
      \<and> now w + secondsToMilliseconds (payloadExpiresIn p) - EXPIRATION_OFFSET_IN_MS \<noteq> 0
      \<longrightarrow> jointlyPopulated (userAuth (handleExternalAuth p userDetails w)))
   \<and> (jointlyPopulated (userAuth w) \<and> refreshOutcome srv (calls w) = Inr (token, expiresIn)
        \<and> token \<noteq> [] \<and> now w + secondsToMilliseconds expiresIn - EXPIRATION_OFFSET_IN_MS \<noteq> 0
      \<longrightarrow> jointlyPopulated (userAuth (snd (HydraApi_refreshToken srv w))))
   \<and> (refreshOutcome srv (calls w) = Inl err
      \<longrightarrow> userAuth (snd (HydraApi_refreshToken srv w)) = userAuth w)
   \<and> jointlyEmpty (userAuth (handleSignOut srv w))
   \<and> jointlyEmpty (userAuth (snd (handleUnauthorizedError (AxiosError c (Some 401) m) w)))"
proof -
  have A: "payloadAccessToken p \<noteq> [] \<and> payloadRefreshToken p \<noteq> []
      \<and> now w + secondsToMilliseconds (payloadExpiresIn p) - EXPIRATION_OFFSET_IN_MS \<noteq> 0
      \<longrightarrow> jointlyPopulated (userAuth (handleExternalAuth p userDetails w))"
    by (simp add: handleExternalAuth_def jointlyPopulated_def Let_def split: option.splits)
  have B: "jointlyPopulated (userAuth w) \<and> refreshOutcome srv (calls w) = Inr (token, expiresIn)
        \<and> token \<noteq> [] \<and> now w + secondsToMilliseconds expiresIn - EXPIRATION_OFFSET_IN_MS \<noteq> 0
      \<longrightarrow> jointlyPopulated (userAuth (snd (HydraApi_refreshToken srv w)))"
    by (simp add: HydraApi_refreshToken_def jointlyPopulated_def Let_def)
  have C: "refreshOutcome srv (calls w) = Inl err
      \<longrightarrow> userAuth (snd (HydraApi_refreshToken srv w)) = userAuth w"
    by (simp add: HydraApi_refreshToken_def)
  have D: "jointlyEmpty (userAuth (handleSignOut srv w))"
    by (simp add: handleSignOut_empty jointlyEmpty_def emptyAuth_def)
  have E: "jointlyEmpty (userAuth (snd (handleUnauthorizedError (AxiosError c (Some 401) m) w)))"
    by (simp add: handleUnauthorizedError_def sendSignOutEvent_def jointlyEmpty_def emptyAuth_def)
  from A B C D E show ?thesis by blast
qed

theorem session_transitions_witness:
  "payloadAccessToken (Payload ''token'' 3600 ''refresh'') \<noteq> []
   \<and> payloadRefreshToken (Payload ''token'' 3600 ''refresh'') \<noteq> []
   \<and> now expiredWorld + secondsToMilliseconds (payloadExpiresIn (Payload ''token'' 3600 ''refresh''))
       - EXPIRATION_OFFSET_IN_MS \<noteq> 0
   \<and> jointlyPopulated (userAuth (handleExternalAuth (Payload ''token'' 3600 ''refresh'') None
        expiredWorld))
   \<and> jointlyPopulated (userAuth expiredWorld)
   \<and> refreshOutcome refreshing (calls expiredWorld) = Inr (''fresh token'', 3600)
   \<and> jointlyPopulated (userAuth (snd (HydraApi_refreshToken refreshing expiredWorld)))
   \<and> refreshOutcome (rejecting timeout) (calls expiredWorld) = Inl timedOut
   \<and> userAuth (snd (HydraApi_refreshToken (rejecting timeout) expiredWorld))
       = userAuth expiredWorld
   \<and> jointlyEmpty (userAuth (handleSignOut refreshing expiredWorld))"
proof -
  let ?p = "Payload ''token'' 3600 ''refresh''"
  have a1: "payloadAccessToken ?p \<noteq> []" and a2: "payloadRefreshToken ?p \<noteq> []"
    by simp_all
  have a3: "now expiredWorld + secondsToMilliseconds (payloadExpiresIn ?p)
              - EXPIRATION_OFFSET_IN_MS \<noteq> 0"
    by (simp add: expiredWorld_def signedInWorld_def secondsToMilliseconds_def
        EXPIRATION_OFFSET_IN_MS_def)
  have b1: "jointlyPopulated (userAuth expiredWorld)"
    by (simp add: expiredWorld_def signedInWorld_def jointlyPopulated_def)
  have b2: "refreshOutcome refreshing (calls expiredWorld) = Inr (''fresh token'', 3600)"
    by (rule refreshOutcome_refreshing)
  have b3: "''fresh token'' \<noteq> []" by simp
  have b4: "now expiredWorld + secondsToMilliseconds 3600 - EXPIRATION_OFFSET_IN_MS \<noteq> 0"
    by (simp add: expiredWorld_def signedInWorld_def secondsToMilliseconds_def
        EXPIRATION_OFFSET_IN_MS_def)
  have c1: "refreshOutcome (rejecting timeout) (calls expiredWorld) = Inl timedOut"
    by (simp add: refreshOutcome_rejecting intercepted)
  note T1 = session_transitions[where p = ?p and w = expiredWorld and userDetails = None
      and srv = refreshing and token = "''fresh token''" and expiresIn = 3600]
  note T2 = session_transitions[where w = expiredWorld and srv = "rejecting timeout"
      and err = timedOut]
  have A: "jointlyPopulated (userAuth (handleExternalAuth ?p None expiredWorld))"
    using T1 a1 a2 a3 by blast
  have B: "jointlyPopulated (userAuth (snd (HydraApi_refreshToken refreshing expiredWorld)))"
    using T1 b1 b2 b3 b4 by blast
  have C: "userAuth (snd (HydraApi_refreshToken (rejecting timeout) expiredWorld))
             = userAuth expiredWorld"
    using T2 c1 by blast
  have D: "jointlyEmpty (userAuth (handleSignOut refreshing expiredWorld))"
    using T1 by blast
  show ?thesis
    by (intro conjI) (rule a1, rule a2, rule a3, rule A, rule b1, rule b2, rule B, rule c1,
        rule C, rule D)
qed

text \<open>
  C4 as stated fails: a sign-in whose payload carries an empty access token and a
  non-empty refresh token leaves the session neither jointly empty nor jointly
  populated.
\<close>

theorem sign_in_mixed_session:
  "\<not> (jointlyEmpty (userAuth (handleExternalAuth (Payload [] 3600 ''refresh'') None initialWorld))
      \<or> jointlyPopulated (userAuth (handleExternalAuth (Payload [] 3600 ''refresh'') None initialWorld)))"
  by (simp add: handleExternalAuth_def jointlyPopulated_def jointlyEmpty_def Let_def initialWorld_def)

text \<open>
  C10. For every error that is not an Axios error with response status 401,
  \<open>handleUnauthorizedError\<close> throws the same error and leaves the world as it was: the
  session, the stored auth and user records, and what was sent to the window. So a
  token refresh that fails with such an error leaves \<open>revalidateAccessTokenIfExpired\<close>
  throwing it with session, records and notifications untouched. A 401 response is
  what runs the sign-out transition.
\<close>

theorem non_401_rethrown_unchanged:
  assumes "\<forall>c m. err \<noteq> AxiosError c (Some 401) m"
  shows "handleUnauthorizedError err w = (err, w)
       \<and> (expirationTimestamp (userAuth w) < now w \<and> refreshOutcome srv (calls w) = Inl err
            \<longrightarrow> (\<exists>w'. revalidateAccessTokenIfExpired srv w = (Inl err, w')
                  \<and> userAuth w' = userAuth w \<and> dbAuth w' = dbAuth w \<and> dbUser w' = dbUser w
                  \<and> sent w' = sent w))
       \<and> (\<exists>w'. handleUnauthorizedError (AxiosError c (Some 401) m) w = (AxiosError c (Some 401) m, w')
             \<and> signedOut w w')"
proof -
  from assms have nu: "\<not> isUnauthorized err" by (cases err) auto
  then have A: "handleUnauthorizedError err w = (err, w)"
    by (simp add: handleUnauthorizedError_def)
  have B: "expirationTimestamp (userAuth w) < now w \<and> refreshOutcome srv (calls w) = Inl err
            \<longrightarrow> (\<exists>w'. revalidateAccessTokenIfExpired srv w = (Inl err, w')
                  \<and> userAuth w' = userAuth w \<and> dbAuth w' = dbAuth w \<and> dbUser w' = dbUser w
                  \<and> sent w' = sent w)"
    using nu by (simp add: revalidateAccessTokenIfExpired_def HydraApi_refreshToken_def
        handleUnauthorizedError_def)
  have C: "\<exists>w'. handleUnauthorizedError (AxiosError c (Some 401) m) w = (AxiosError c (Some 401) m, w')
             \<and> signedOut w w'"
    by (simp add: handleUnauthorizedError_def signedOut_def sendSignOutEvent_def)
  from A B C show ?thesis by blast
qed

theorem non_401_rethrown_unchanged_witness:
  "handleUnauthorizedError timedOut expiredWorld = (timedOut, expiredWorld)
   \<and> expirationTimestamp (userAuth expiredWorld) < now expiredWorld
   \<and> refreshOutcome (rejecting timeout) (calls expiredWorld) = Inl timedOut
   \<and> (\<exists>w'. revalidateAccessTokenIfExpired (rejecting timeout) expiredWorld = (Inl timedOut, w')
         \<and> userAuth w' = userAuth expiredWorld \<and> dbAuth w' = dbAuth expiredWorld
         \<and> dbUser w' = dbUser expiredWorld \<and> sent w' = sent expiredWorld)"
proof -
  have h: "\<forall>c m. timedOut \<noteq> AxiosError c (Some 401) m"
    by (simp add: timedOut_def)
  note T = non_401_rethrown_unchanged[OF h, where w = expiredWorld and srv = "rejecting timeout"]
  have e: "expirationTimestamp (userAuth expiredWorld) < now expiredWorld"
    by (simp add: expiredWorld_def signedInWorld_def)
  have r: "refreshOutcome (rejecting timeout) (calls expiredWorld) = Inl timedOut"
    by (simp add: refreshOutcome_rejecting intercepted)
  have A: "handleUnauthorizedError timedOut expiredWorld = (timedOut, expiredWorld)"
    using T by blast
  have B: "\<exists>w'. revalidateAccessTokenIfExpired (rejecting timeout) expiredWorld = (Inl timedOut, w')
         \<and> userAuth w' = userAuth expiredWorld \<and> dbAuth w' = dbAuth expiredWorld
         \<and> dbUser w' = dbUser expiredWorld \<and> sent w' = sent expiredWorld"
    using T e r by blast
  show ?thesis
    by (intro conjI) (rule A, rule e, rule r, rule B)
qed

section \<open>Properties of startup and shutdown\<close>

subsection \<open>Lock acquisition\<close>

lemma lockLoop_retry:
  "\<not> acquireLock env (length (trace w)) \<Longrightarrow> attempt < MAX_RETRY_ATTEMPTS \<Longrightarrow>
     lockLoop env attempt w =
       lockLoop env (attempt + 1) (startupDelay (RETRY_DELAY * int attempt) (called AcquireLock False w))"
  by (subst lockLoop.simps) (simp add: Let_def)

lemma lockLoop_give_up:
  "\<not> acquireLock env (length (trace w)) \<Longrightarrow>
     lockLoop env MAX_RETRY_ATTEMPTS w = (Inl lockFailure, called AcquireLock False w)"
  by (subst lockLoop.simps) (simp add: Let_def lockFailure_def)

lemma lockLoop_acquired:
  "acquireLock env (length (trace w)) \<Longrightarrow> attempt \<le> MAX_RETRY_ATTEMPTS \<Longrightarrow>
     lockLoop env attempt w = (Inr (), called AcquireLock True w)"
  by (subst lockLoop.simps) (simp add: Let_def)

lemma attemptsOf_append: "attemptsOf (xs @ ys) = attemptsOf xs + attemptsOf ys"
  by (induction xs rule: attemptsOf.induct) simp_all

lemma delaysOf_append: "delaysOf (xs @ ys) = delaysOf xs @ delaysOf ys"
  by (induction xs rule: delaysOf.induct) simp_all

text \<open>The four runs lock acquisition can take, by the outcome of each attempt.\<close>

lemma lock_outcomes:
  "handleLockAcquisition env w \<in>
     {(Inr (), w\<lparr>trace := trace w @ [Called AcquireLock True]\<rparr>),
      (Inr (), w\<lparr>trace := trace w @ [Called AcquireLock False, Slept 2000,
                  Called AcquireLock True]\<rparr>),
      (Inr (), w\<lparr>trace := trace w @ [Called AcquireLock False, Slept 2000,
                  Called AcquireLock False, Slept 4000, Called AcquireLock True]\<rparr>),
      (Inl lockFailure, w\<lparr>trace := trace w @ [Called AcquireLock False, Slept 2000,
                  Called AcquireLock False, Slept 4000, Called AcquireLock False]\<rparr>)}"
proof -
  let ?w1 = "startupDelay (RETRY_DELAY * int 1) (called AcquireLock False w)"
  let ?w2 = "startupDelay (RETRY_DELAY * int 2) (called AcquireLock False ?w1)"
  have unf: "handleLockAcquisition env w = lockLoop env 1 w"
    by (simp add: handleLockAcquisition_def)
  show ?thesis
  proof (cases "acquireLock env (length (trace w))")
    case True
    then have "lockLoop env 1 w = (Inr (), called AcquireLock True w)"
      by (rule lockLoop_acquired) (simp add: MAX_RETRY_ATTEMPTS_def)
    then show ?thesis
      unfolding unf by (simp add: called_def)
  next
    case f1: False
    then have s1: "lockLoop env 1 w = lockLoop env 2 ?w1"
      using lockLoop_retry[of env w 1] by (simp add: MAX_RETRY_ATTEMPTS_def numeral_2_eq_2)
    show ?thesis
    proof (cases "acquireLock env (length (trace ?w1))")
      case True
      then have "lockLoop env 2 ?w1 = (Inr (), called AcquireLock True ?w1)"
        by (rule lockLoop_acquired) (simp add: MAX_RETRY_ATTEMPTS_def)
      with s1 have "lockLoop env 1 w = (Inr (), called AcquireLock True ?w1)"
        by (rule trans)
      then show ?thesis
        unfolding unf by (simp add: called_def startupDelay_def RETRY_DELAY_def)
    next
      case f2: False
      then have s2: "lockLoop env 2 ?w1 = lockLoop env 3 ?w2"
        using lockLoop_retry[of env ?w1 2]
        by (simp add: MAX_RETRY_ATTEMPTS_def numeral_3_eq_3 numeral_2_eq_2)
      show ?thesis
      proof (cases "acquireLock env (length (trace ?w2))")
        case True
        then have "lockLoop env 3 ?w2 = (Inr (), called AcquireLock True ?w2)"
          by (rule lockLoop_acquired) (simp add: MAX_RETRY_ATTEMPTS_def)
        with s1 s2 have "lockLoop env 1 w = (Inr (), called AcquireLock True ?w2)"
          by (simp only:)
        then show ?thesis
          unfolding unf by (simp add: called_def startupDelay_def RETRY_DELAY_def)
      next
        case False
        then have "lockLoop env 3 ?w2 = (Inl lockFailure, called AcquireLock False ?w2)"
          using lockLoop_give_up[of env ?w2] by (simp add: MAX_RETRY_ATTEMPTS_def)
        with s1 s2 have "lockLoop env 1 w = (Inl lockFailure, called AcquireLock False ?w2)"
          by (simp only:)
        then show ?thesis
          unfolding unf by (simp add: called_def startupDelay_def RETRY_DELAY_def)
      qed
    qed
  qed
qed

lemma lock_all_fail:
  assumes "\<forall>t. \<not> acquireLock env t"
  shows "handleLockAcquisition env w = (Inl lockFailure,
           w\<lparr>trace := trace w @ [Called AcquireLock False, Slept 2000, Called AcquireLock False,
              Slept 4000, Called AcquireLock False]\<rparr>)"
proof -
  let ?w1 = "startupDelay (RETRY_DELAY * int 1) (called AcquireLock False w)"
  let ?w2 = "startupDelay (RETRY_DELAY * int 2) (called AcquireLock False ?w1)"
  have "lockLoop env 1 w = lockLoop env 2 ?w1"
    using lockLoop_retry[of env w 1] assms by (simp add: MAX_RETRY_ATTEMPTS_def numeral_2_eq_2)
  also have "\<dots> = lockLoop env 3 ?w2"
    using lockLoop_retry[of env ?w1 2] assms by (simp add: MAX_RETRY_ATTEMPTS_def numeral_3_eq_3 numeral_2_eq_2)
  also have "\<dots> = (Inl lockFailure, called AcquireLock False ?w2)"
    using lockLoop_give_up[of env ?w2] assms by (simp add: MAX_RETRY_ATTEMPTS_def)
  finally show ?thesis
    by (simp add: handleLockAcquisition_def called_def startupDelay_def RETRY_DELAY_def)
qed

text \<open>
  C6, as the code has it. Lock acquisition is attempted at most 3 times. When every
  attempt fails, 2000 ms are waited after the first failure and 4000 ms after the
  second; the third failure is followed by no wait and no fourth attempt: a
  \<open>CriticalStartupError\<close> with component \<^verbatim>\<open>Lock\<close> that is not recoverable is thrown at
  once.
\<close>

theorem lock_acquisition_gives_up:
  "attemptsOf (trace (snd (handleLockAcquisition env w)))
     \<le> attemptsOf (trace w) + MAX_RETRY_ATTEMPTS
   \<and> ((\<forall>t. \<not> acquireLock env t) \<longrightarrow>
        handleLockAcquisition env w =
          (Inl (Critical (CriticalStartupError
             ''Failed to acquire application lock after multiple attempts. Another instance may be running.''
             ''Lock'' False)),
           w\<lparr>trace := trace w @ [Called AcquireLock False, Slept 2000,
              Called AcquireLock False, Slept 4000, Called AcquireLock False]\<rparr>))"
proof -
  have A: "attemptsOf (trace (snd (handleLockAcquisition env w)))
             \<le> attemptsOf (trace w) + MAX_RETRY_ATTEMPTS"
    using lock_outcomes[of env w] by (auto simp: attemptsOf_append MAX_RETRY_ATTEMPTS_def)
  have B: "(\<forall>t. \<not> acquireLock env t) \<longrightarrow>
        handleLockAcquisition env w =
          (Inl (Critical (CriticalStartupError
             ''Failed to acquire application lock after multiple attempts. Another instance may be running.''
             ''Lock'' False)),
           w\<lparr>trace := trace w @ [Called AcquireLock False, Slept 2000,
              Called AcquireLock False, Slept 4000, Called AcquireLock False]\<rparr>)"
    using lock_all_fail[of env w] by (simp add: lockFailure_def)
  from A B show ?thesis by (rule conjI)
qed

theorem lock_acquisition_gives_up_witness:
  "(\<forall>t. \<not> acquireLock lockedEnv t)
   \<and> attemptsOf (trace (snd (handleLockAcquisition lockedEnv initialApp)))
       \<le> attemptsOf (trace initialApp) + MAX_RETRY_ATTEMPTS
   \<and> handleLockAcquisition lockedEnv initialApp =
       (Inl (Critical (CriticalStartupError
          ''Failed to acquire application lock after multiple attempts. Another instance may be running.''
          ''Lock'' False)),
        initialApp\<lparr>trace := trace initialApp @ [Called AcquireLock False, Slept 2000,
           Called AcquireLock False, Slept 4000, Called AcquireLock False]\<rparr>)"
proof -
  have h: "\<forall>t. \<not> acquireLock lockedEnv t"
    by (simp add: lockedEnv_def quietEnv_def)
  note T = lock_acquisition_gives_up[of lockedEnv initialApp]
  have A: "attemptsOf (trace (snd (handleLockAcquisition lockedEnv initialApp)))
       \<le> attemptsOf (trace initialApp) + MAX_RETRY_ATTEMPTS"
    using T by (rule conjunct1)
  have B: "handleLockAcquisition lockedEnv initialApp =
       (Inl (Critical (CriticalStartupError
          ''Failed to acquire application lock after multiple attempts. Another instance may be running.''
          ''Lock'' False)),
        initialApp\<lparr>trace := trace initialApp @ [Called AcquireLock False, Slept 2000,
           Called AcquireLock False, Slept 4000, Called AcquireLock False]\<rparr>)"
    using T h by blast
  show ?thesis
    by (intro conjI) (rule h, rule A, rule B)
qed

text \<open>
  C6 as stated fails: with the lock never acquired, the waits are 2000 ms and 4000 ms;
  no 6000 ms wait follows the third failure.
\<close>

theorem lock_delays_counterexample:
  "delaysOf (trace (snd (handleLockAcquisition lockedEnv initialApp))) = [2000, 4000]
   \<and> delaysOf (trace (snd (handleLockAcquisition lockedEnv initialApp))) \<noteq> [2000, 4000, 6000]"
proof -
  have "\<forall>t. \<not> acquireLock lockedEnv t" by (simp add: lockedEnv_def quietEnv_def)
  from lock_all_fail[OF this, of initialApp] show ?thesis
    by (simp add: initialApp_def)
qed

subsection \<open>Service initialization\<close>

lemma initService_trace:
  "trace (initService env name w) = trace w @ [Called (Init name) (init env name (length (trace w)) = None)]"
  by (simp add: initService_def called_def split: option.splits)

lemma initService_errors:
  "startupErrors (initService env name w) =
     startupErrors w @ wrapFailure name (init env name (length (trace w)))"
  by (simp add: initService_def called_def wrapFailure_def split: option.splits)

lemma serviceLoop_trace:
  "trace (serviceLoop env names w) =
     trace w @ map (\<lambda>(t, name). Called (Init name) (init env name t = None))
                 (enumerate (length (trace w)) names)"
  by (induction names arbitrary: w) (simp_all add: initService_trace)

lemma serviceLoop_errors:
  "startupErrors (serviceLoop env names w) =
     startupErrors w @ concat (map (\<lambda>(t, name). wrapFailure name (init env name t))
                                (enumerate (length (trace w)) names))"
  by (induction names arbitrary: w) (simp_all add: initService_trace initService_errors)

lemma length_failures:
  "length (concat (map (\<lambda>(t, name). wrapFailure name (init env name t)) ps)) =
     length (filter (\<lambda>(t, name). init env name t \<noteq> None) ps)"
  by (induction ps) (auto simp: wrapFailure_def split: option.splits)

lemma lock_keeps_errors:
  "startupErrors (snd (handleLockAcquisition env w)) = startupErrors w"
  using lock_outcomes[of env w] by auto

lemma database_keeps_errors:
  "startupErrors (snd (handleDatabaseInitialization env w)) = startupErrors w"
  by (simp add: handleDatabaseInitialization_def attemptDatabaseRecovery_def
      resetCriticalDatabaseEntries_def createDatabaseBackup_def called_def Let_def
      split: bool.splits)

lemma paths_keep_errors:
  "startupErrors (snd (handleSystemPathValidation env w)) = startupErrors w"
  by (simp add: handleSystemPathValidation_def attemptPathRecovery_def called_def Let_def)

text \<open>
  C7. When the first three steps have passed, \<open>handleCriticalStartup\<close> returns normally
  whatever the services do, without a message box: every service of the list is
  invoked once, in the declared order, and each one whose \<^verbatim>\<open>init\<close> throws adds one
  recoverable \<open>CriticalStartupError\<close> with its name as component and a message that
  carries the original message, at the end of \<^verbatim>\<open>startupErrors\<close>. The list grows by
  exactly the number of failing services, two when two of the five fail.
\<close>

theorem service_failures_accumulate:
  assumes "handleLockAcquisition env w = (Inr (), w1)"
    and "handleDatabaseInitialization env w1 = (Inr (), w2)"
    and "handleSystemPathValidation env w2 = (Inr (), w3)"
  shows "handleCriticalStartup env responses w = Some (handleEssentialServices env w3)
    \<and> trace (handleEssentialServices env w3) =
        trace w3 @ map (\<lambda>(t, name). Called (Init name) (init env name t = None))
                    (enumerate (length (trace w3)) services)
    \<and> startupErrors (handleEssentialServices env w3) =
        startupErrors w @ concat (map (\<lambda>(t, name). wrapFailure name (init env name t))
                                  (enumerate (length (trace w3)) services))
    \<and> length (startupErrors (handleEssentialServices env w3)) =
        length (startupErrors w)
        + length (filter (\<lambda>(t, name). init env name t \<noteq> None)
                    (enumerate (length (trace w3)) services))"
proof -
  have "startupSequence env w = (Inr (), handleEssentialServices env w3)"
    using assms by (simp add: startupSequence_def)
  then have A: "handleCriticalStartup env responses w = Some (handleEssentialServices env w3)"
    by simp
  have B: "trace (handleEssentialServices env w3) =
        trace w3 @ map (\<lambda>(t, name). Called (Init name) (init env name t = None))
                    (enumerate (length (trace w3)) services)"
    by (simp only: handleEssentialServices_def serviceLoop_trace)
  have "startupErrors w1 = startupErrors w"
    using lock_keeps_errors[of env w] assms(1) by simp
  moreover have "startupErrors w2 = startupErrors w1"
    using database_keeps_errors[of env w1] assms(2) by simp
  moreover have "startupErrors w3 = startupErrors w2"
    using paths_keep_errors[of env w2] assms(3) by simp
  ultimately have e: "startupErrors w3 = startupErrors w" by simp
  have C: "startupErrors (handleEssentialServices env w3) =
        startupErrors w @ concat (map (\<lambda>(t, name). wrapFailure name (init env name t))
                                   (enumerate (length (trace w3)) services))"
    by (simp only: handleEssentialServices_def serviceLoop_errors e)
  have D: "length (startupErrors (handleEssentialServices env w3)) =
        length (startupErrors w)
        + length (filter (\<lambda>(t, name). init env name t \<noteq> None)
                    (enumerate (length (trace w3)) services))"
    by (simp only: C length_append length_failures)
  from A B C D show ?thesis by (intro conjI)
qed

theorem service_failures_accumulate_witness:
  "handleLockAcquisition twoFailEnv initialApp
     = (Inr (), \<lparr>startupErrors = [], trace = [Called AcquireLock True]\<rparr>)
   \<and> handleDatabaseInitialization twoFailEnv \<lparr>startupErrors = [], trace = [Called AcquireLock True]\<rparr>
     = (Inr (), \<lparr>startupErrors = [], trace = [Called AcquireLock True, Called DbGet True]\<rparr>)
   \<and> handleSystemPathValidation twoFailEnv
       \<lparr>startupErrors = [], trace = [Called AcquireLock True, Called DbGet True]\<rparr>
     = (Inr (), \<lparr>startupErrors = [],
          trace = [Called AcquireLock True, Called DbGet True, Called CheckPaths True]\<rparr>)
   \<and> handleCriticalStartup twoFailEnv [] initialApp =
       Some \<lparr>startupErrors =
               [CriticalStartupError ''PythonRPC failed to initialize: spawn python ENOENT''
                  ''PythonRPC'' True,
                CriticalStartupError ''Ludusavi failed to initialize: EACCES: permission denied''
                  ''Ludusavi'' True],
             trace = [Called AcquireLock True, Called DbGet True, Called CheckPaths True,
               Called (Init ''PythonRPC'') False, Called (Init ''HydraApi'') True,
               Called (Init ''DownloadManager'') True, Called (Init ''CommonRedistManager'') True,
               Called (Init ''Ludusavi'') False]\<rparr>"
proof -
  let ?w1 = "\<lparr>startupErrors = [], trace = [Called AcquireLock True]\<rparr>"
  let ?w2 = "\<lparr>startupErrors = [], trace = [Called AcquireLock True, Called DbGet True]\<rparr>"
  let ?w3 = "\<lparr>startupErrors = [],
          trace = [Called AcquireLock True, Called DbGet True, Called CheckPaths True]\<rparr>"
  have l: "handleLockAcquisition twoFailEnv initialApp = (Inr (), ?w1)"
    using lockLoop_acquired[of twoFailEnv initialApp 1]
    by (simp add: handleLockAcquisition_def twoFailEnv_def quietEnv_def initialApp_def
        MAX_RETRY_ATTEMPTS_def called_def)
  have d: "handleDatabaseInitialization twoFailEnv ?w1 = (Inr (), ?w2)"
    by (simp add: handleDatabaseInitialization_def twoFailEnv_def quietEnv_def called_def)
  have p: "handleSystemPathValidation twoFailEnv ?w2 = (Inr (), ?w3)"
    by (simp add: handleSystemPathValidation_def twoFailEnv_def quietEnv_def called_def)
  note T = service_failures_accumulate[OF l d p, of "[]"]
  have s: "handleEssentialServices twoFailEnv ?w3 =
       \<lparr>startupErrors =
               [CriticalStartupError ''PythonRPC failed to initialize: spawn python ENOENT''
                  ''PythonRPC'' True,
                CriticalStartupError ''Ludusavi failed to initialize: EACCES: permission denied''
                  ''Ludusavi'' True],
             trace = [Called AcquireLock True, Called DbGet True, Called CheckPaths True,
               Called (Init ''PythonRPC'') False, Called (Init ''HydraApi'') True,
               Called (Init ''DownloadManager'') True, Called (Init ''CommonRedistManager'') True,
               Called (Init ''Ludusavi'') False]\<rparr>"
    by (simp add: handleEssentialServices_def services_def initService_def called_def
        twoFailEnv_def quietEnv_def)
  have A: "handleCriticalStartup twoFailEnv [] initialApp
             = Some (handleEssentialServices twoFailEnv ?w3)"
    using T by (rule conjunct1)
  show ?thesis
    by (intro conjI) (rule l, rule d, rule p, rule A[unfolded s])
qed

subsection \<open>The issue report\<close>

text \<open>
  C8. The dialog for an error that is not recoverable offers the buttons
  \<^verbatim>\<open>Exit\<close> and \<^verbatim>\<open>Report Issue\<close>, so choosing \<^verbatim>\<open>Report Issue\<close> answers with
  index 1. For the lock failure and that answer, \<open>handleStartupFailure\<close> shows the
  dialog and returns: no report is written and \<^verbatim>\<open>app.quit\<close> is not called.
\<close>

theorem report_issue_button_does_nothing:
  "buttons (isRecoverable lockFailure) ! 1 = ''Report Issue''
   \<and> handleStartupFailure quietEnv lockFailure [1] initialApp =
       Some (initialApp\<lparr>trace := [MessageBox [''Exit'', ''Report Issue'']
         ''Failed to acquire application lock after multiple attempts. Another instance may be running.'']\<rparr>)"
  by (simp add: lockFailure_def buttons_def initialApp_def)

subsection \<open>Shutdown\<close>

text \<open>
  C9. In every run of \<open>handleGracefulShutdown\<close> in which \<^verbatim>\<open>PythonRPC.kill\<close> is called
  and fails, the forced kill command is run next (\<^verbatim>\<open>taskkill /f /im python.exe\<close> on
  \<^verbatim>\<open>win32\<close>, \<^verbatim>\<open>pkill -f python\<close> elsewhere), whatever becomes of it
  \<^verbatim>\<open>Lock.releaseLock\<close> is called after it, and the process is forced to exit only if
  that release fails.
\<close>

theorem shutdown_after_failed_kill:
  assumes "Called Kill False \<in> set (drop (length (trace w)) (trace (handleGracefulShutdown env w)))"
  shows "\<exists>forced released. trace (handleGracefulShutdown env w) =
           trace w @ [Called StopAllDownloads True, Called Disconnect True, Called Kill False,
             Called (ExecAsync (if platform env = ''win32'' then ''taskkill /f /im python.exe''
                                else ''pkill -f python'')) forced,
             Called ReleaseLock released]
           @ (if released then [] else [AppExit 1])"
  using assms
  by (auto simp: handleGracefulShutdown_def killPythonProcesses_def forceKillPythonProcesses_def
      forceExit_def called_def Let_def split: if_splits)

theorem shutdown_after_failed_kill_witness:
  "Called Kill False
     \<in> set (drop (length (trace initialApp)) (trace (handleGracefulShutdown killFailsEnv initialApp)))
   \<and> (\<exists>forced released. trace (handleGracefulShutdown killFailsEnv initialApp) =
           trace initialApp @ [Called StopAllDownloads True, Called Disconnect True,
             Called Kill False,
             Called (ExecAsync (if platform killFailsEnv = ''win32''
                                then ''taskkill /f /im python.exe''
                                else ''pkill -f python'')) forced,
             Called ReleaseLock released]
           @ (if released then [] else [AppExit 1]))"
proof -
  have h: "Called Kill False
     \<in> set (drop (length (trace initialApp)) (trace (handleGracefulShutdown killFailsEnv initialApp)))"
    by (simp add: handleGracefulShutdown_def killPythonProcesses_def
        forceKillPythonProcesses_def forceExit_def called_def Let_def killFailsEnv_def
        quietEnv_def initialApp_def)
  from shutdown_after_failed_kill[OF h] h show ?thesis
    by (intro conjI)
qed

end
